theory Spec2Isabelle
  imports
    Complex_Main
    "HOL-Library.List_Lexorder"
    "HOL-Library.Char_ord"
    "HOL-Library.AList"
    "HOL-Library.Multiset"
begin

section \<open>Python strings\<close>

text \<open>
  A Python \<open>str\<close> is modelled as the \<open>string\<close> of the bytes of its UTF-8 encoding;
  the emoji of the source's messages are spelled out as their bytes.

  \<open>str.strip()\<close> removes the whitespace code points at both ends, those of
  \<open>str.isspace\<close>: U+0009 to U+000D, U+001C to U+001F and U+0020 (one byte each), U+0085
  and U+00A0 (two bytes), and U+1680, U+2000 to U+200A, U+2028, U+2029, U+202F, U+205F and
  U+3000 (three bytes). In UTF-8 a lead byte never occurs inside a code point, so matching
  these encodings at either end of the bytes finds exactly these code points.
  \<open>isspace1\<close>, \<open>isspace2\<close> and \<open>isspace3\<close> recognise the whitespace code points
  whose encoding has one, two and three bytes.
\<close>

definition isspace1 :: "char \<Rightarrow> bool" where
  "isspace1 c \<longleftrightarrow>
     c \<in> set [CHR 0x09, CHR 0x0A, CHR 0x0B, CHR 0x0C, CHR 0x0D,
              CHR 0x1C, CHR 0x1D, CHR 0x1E, CHR 0x1F, CHR 0x20]"

definition isspace2 :: "char \<Rightarrow> char \<Rightarrow> bool" where
  "isspace2 a b \<longleftrightarrow> a = CHR 0xC2 \<and> b \<in> set [CHR 0x85, CHR 0xA0]"

definition isspace3 :: "char \<Rightarrow> char \<Rightarrow> char \<Rightarrow> bool" where
  "isspace3 a b c \<longleftrightarrow>
     a = CHR 0xE1 \<and> b = CHR 0x9A \<and> c = CHR 0x80 \<or>
     a = CHR 0xE2 \<and> b = CHR 0x80 \<and>
       c \<in> set [CHR 0x80, CHR 0x81, CHR 0x82, CHR 0x83, CHR 0x84, CHR 0x85, CHR 0x86,
                CHR 0x87, CHR 0x88, CHR 0x89, CHR 0x8A, CHR 0xA8, CHR 0xA9, CHR 0xAF] \<or>
     a = CHR 0xE2 \<and> b = CHR 0x81 \<and> c = CHR 0x9F \<or>
     a = CHR 0xE3 \<and> b = CHR 0x80 \<and> c = CHR 0x80"

text \<open>The encodings of the whitespace code points, in the order of the code points.\<close>

definition whitespace :: "string list" where
  "whitespace =
     [ [CHR 0x09], [CHR 0x0A], [CHR 0x0B], [CHR 0x0C], [CHR 0x0D],
      [CHR 0x1C], [CHR 0x1D], [CHR 0x1E], [CHR 0x1F], [CHR 0x20],
      [CHR 0xC2, CHR 0x85], [CHR 0xC2, CHR 0xA0],
      [CHR 0xE1, CHR 0x9A, CHR 0x80],
      [CHR 0xE2, CHR 0x80, CHR 0x80], [CHR 0xE2, CHR 0x80, CHR 0x81],
      [CHR 0xE2, CHR 0x80, CHR 0x82], [CHR 0xE2, CHR 0x80, CHR 0x83],
      [CHR 0xE2, CHR 0x80, CHR 0x84], [CHR 0xE2, CHR 0x80, CHR 0x85],
      [CHR 0xE2, CHR 0x80, CHR 0x86], [CHR 0xE2, CHR 0x80, CHR 0x87],
      [CHR 0xE2, CHR 0x80, CHR 0x88], [CHR 0xE2, CHR 0x80, CHR 0x89],
      [CHR 0xE2, CHR 0x80, CHR 0x8A],
      [CHR 0xE2, CHR 0x80, CHR 0xA8], [CHR 0xE2, CHR 0x80, CHR 0xA9],
      [CHR 0xE2, CHR 0x80, CHR 0xAF],
      [CHR 0xE2, CHR 0x81, CHR 0x9F],
      [CHR 0xE3, CHR 0x80, CHR 0x80] ]"

text \<open>
  Dropping the whitespace code points at the front; \<open>p2\<close> and \<open>p3\<close> recognise the two-
  and three-byte ones in the order in which the bytes come.
\<close>

fun drop_spaces ::
  "(char \<Rightarrow> char \<Rightarrow> bool) \<Rightarrow> (char \<Rightarrow> char \<Rightarrow> char \<Rightarrow> bool) \<Rightarrow> string \<Rightarrow> string" where
  "drop_spaces p2 p3 (a # b # c # s) =
     (if isspace1 a then drop_spaces p2 p3 (b # c # s)
      else if p2 a b then drop_spaces p2 p3 (c # s)
      else if p3 a b c then drop_spaces p2 p3 s
      else a # b # c # s)"
| "drop_spaces p2 p3 [a, b] =
     (if isspace1 a then drop_spaces p2 p3 [b]
      else if p2 a b then []
      else [a, b])"
| "drop_spaces p2 p3 [a] = (if isspace1 a then [] else [a])"
| "drop_spaces p2 p3 [] = []"

definition lstrip :: "string \<Rightarrow> string" where
  "lstrip s = drop_spaces isspace2 isspace3 s"

definition rstrip :: "string \<Rightarrow> string" where
  "rstrip s = rev (drop_spaces (\<lambda>a b. isspace2 b a) (\<lambda>a b c. isspace3 c b a) (rev s))"

definition strip :: "string \<Rightarrow> string" where
  "strip s = rstrip (lstrip s)"

text \<open>\<open>sep.join(xs)\<close>.\<close>

fun join :: "string \<Rightarrow> string list \<Rightarrow> string" where
  "join sep [] = []"
| "join sep [x] = x"
| "join sep (x # y # ys) = x @ sep @ join sep (y # ys)"

definition newline :: string where
  "newline = [CHR 0x0A]"

definition quote :: string where
  "quote = [CHR 0x27]"

text \<open>\<open>str(n)\<close> of a length, as the f-strings print it.\<close>

function str_nat :: "nat \<Rightarrow> string" where
  "str_nat n =
     (if n < 10 then [char_of (48 + n)]
      else str_nat (n div 10) @ [char_of (48 + n mod 10)])"
  by pat_completeness auto
termination
  by (relation "measure id") auto

definition emoji_goose :: string where
  "emoji_goose = [CHR 0xF0, CHR 0x9F, CHR 0xAA, CHR 0xBF]"

definition emoji_new :: string where
  "emoji_new = [CHR 0xF0, CHR 0x9F, CHR 0x86, CHR 0x95]"

definition emoji_clipboard :: string where
  "emoji_clipboard = [CHR 0xF0, CHR 0x9F, CHR 0x93, CHR 0x8B]"

definition emoji_folder :: string where
  "emoji_folder = [CHR 0xF0, CHR 0x9F, CHR 0x93, CHR 0x82]"

definition emoji_check :: string where
  "emoji_check = [CHR 0xE2, CHR 0x9C, CHR 0x85]"

definition emoji_cross :: string where
  "emoji_cross = [CHR 0xE2, CHR 0x9D, CHR 0x8C]"

definition emoji_warning :: string where
  "emoji_warning = [CHR 0xE2, CHR 0x9A, CHR 0xA0, CHR 0xEF, CHR 0xB8, CHR 0x8F]"

definition emoji_stopwatch :: string where
  "emoji_stopwatch = [CHR 0xE2, CHR 0x8F, CHR 0xB1, CHR 0xEF, CHR 0xB8, CHR 0x8F]"

section \<open>JSON values and dictionaries\<close>

datatype json =
    JNull
  | JBool bool
  | JInt int
  | JStr string
  | JArr "json list"
  | JObj "(string \<times> json) list"

text \<open>
  A \<open>dict\<close> keeps its keys in insertion order: an association list with distinct
  keys. \<open>d.update(data)\<close> overwrites the value of a key that is present where it
  stands and appends a new key at the end, item by item.
\<close>

type_synonym 'v dict = "(string \<times> 'v) list"

definition dict_update :: "'v dict \<Rightarrow> 'v dict \<Rightarrow> 'v dict" where
  "dict_update d data = fold (\<lambda>(k, v). AList.update k v) data d"

text \<open>\<open>d.get(k, default)\<close> and \<open>d.get(k)\<close>.\<close>

definition dict_get :: "'v dict \<Rightarrow> string \<Rightarrow> 'v \<Rightarrow> 'v" where
  "dict_get d k dflt = (case map_of d k of Some v \<Rightarrow> v | None \<Rightarrow> dflt)"

section \<open>The sessions database\<close>

text \<open>
  \<open>~/.config/goose/sessions.db\<close> holds the tables \<open>sessions\<close> and \<open>messages\<close>; each
  table is the list of its rows in insertion (rowid) order. Timestamps are text, compared
  bytewise as SQLite compares TEXT. Neither front-end ever writes a row.
\<close>

record session_row =
  s_name :: string
  s_created_at :: string
  s_last_accessed :: string
  s_directory :: "string option"

record message_row =
  m_session_name :: string
  m_role :: string
  m_content :: string
  m_timestamp :: string

text \<open>
  The states of the store. \<open>Unsearchable\<close>: the directory of the file cannot be searched
  (no permission). \<open>NoDirectory\<close>: the directory does not exist. \<open>NoFile\<close>: the
  directory exists, the file does not. \<open>Empty\<close>: the file exists and holds no table.
  \<open>Failing e\<close>: the file exists and opening or querying it raises \<open>sqlite3.Error\<close>
  with text \<open>e\<close> (unreadable or corrupt). \<open>Tables\<close>: a readable store.
\<close>

datatype database =
    Unsearchable
  | NoDirectory
  | NoFile
  | Empty
  | Failing string
  | Tables "session_row list" "message_row list"

text \<open>
  \<open>SELECT role, content, timestamp FROM messages WHERE session_name = ?
  ORDER BY timestamp ASC\<close>, the query of both front-ends. Rows with equal timestamps
  stay in rowid order (the order of the table scan).
\<close>

definition session_messages :: "message_row list \<Rightarrow> string \<Rightarrow> message_row list" where
  "session_messages rows nm = filter (\<lambda>r. m_session_name r = nm) rows"

definition message_fields :: "message_row \<Rightarrow> string \<times> string \<times> string" where
  "message_fields r = (m_role r, m_content r, m_timestamp r)"

definition history_query :: "message_row list \<Rightarrow> string \<Rightarrow> (string \<times> string \<times> string) list" where
  "history_query rows nm = map message_fields (sort_key m_timestamp (session_messages rows nm))"

text \<open>\<open>SELECT ... FROM sessions ORDER BY last_accessed DESC\<close>.\<close>

definition sessions_query :: "session_row list \<Rightarrow> session_row list" where
  "sessions_query rows = rev (sort_key s_last_accessed (rev rows))"

section \<open>The external agent and the clock\<close>

text \<open>
  What one run of the \<open>goose\<close> binary does: the lines the iteration over its standard
  output yields, its standard error, its exit code and how long it runs (seconds).
\<close>

record proc =
  stdout_lines :: "string list"
  stderr_text :: string
  returncode :: int
  duration :: real

datatype exc =
    FileNotFoundError
  | TimeoutExpired "string list" real
  | PermissionError

text \<open>
  The world outside the program: \<open>goose\<close> is \<open>None\<close> when the binary is not on the
  path, and otherwise gives the run of each command line; \<open>clock k fmt\<close> is the
  \<open>k\<close>-th reading of \<open>datetime.now()\<close> printed by \<open>strftime(fmt)\<close>, \<open>clock_iso k\<close> by
  \<open>isoformat()\<close>; \<open>str_exc\<close> is \<open>str(e)\<close> of an exception.
\<close>

record world =
  goose :: "(string list \<Rightarrow> proc) option"
  clock :: "nat \<Rightarrow> string \<Rightarrow> string"
  clock_iso :: "nat \<Rightarrow> string"
  str_exc :: "exc \<Rightarrow> string"

text \<open>\<open>subprocess.Popen(cmd, ...)\<close>: raises when the program is not found.\<close>

definition Popen :: "world \<Rightarrow> string list \<Rightarrow> exc + proc" where
  "Popen w cmd = (case goose w of None \<Rightarrow> Inl FileNotFoundError | Some g \<Rightarrow> Inr (g cmd))"

text \<open>
  \<open>subprocess.run(cmd, capture_output=True, text=True, timeout=t)\<close>: the child is killed
  and \<open>TimeoutExpired\<close> raised when it has not ended after \<open>t\<close> seconds.
\<close>

definition subprocess_run :: "world \<Rightarrow> string list \<Rightarrow> real \<Rightarrow> exc + proc" where
  "subprocess_run w cmd timeout =
     (case Popen w cmd of
        Inl e \<Rightarrow> Inl e
      | Inr p \<Rightarrow> if duration p > timeout then Inl (TimeoutExpired cmd timeout) else Inr p)"

text \<open>The command lines for which a child process was created, in order.\<close>

definition record_spawn :: "world \<Rightarrow> string list \<Rightarrow> string list list \<Rightarrow> string list list" where
  "record_spawn w cmd cmds = (case Popen w cmd of Inl e \<Rightarrow> cmds | Inr p \<Rightarrow> cmds @ [cmd])"

section \<open>Opening and querying the store\<close>

text \<open>
  \<open>Path.exists()\<close>: whether the file is there; it raises \<open>PermissionError\<close> when the
  directory cannot be searched.
\<close>

definition db_exists :: "database \<Rightarrow> exc + bool" where
  "db_exists db =
     (case db of
        Unsearchable \<Rightarrow> Inl PermissionError
      | NoDirectory \<Rightarrow> Inr False
      | NoFile \<Rightarrow> Inr False
      | _ \<Rightarrow> Inr True)"

text \<open>
  \<open>sqlite3.connect(path)\<close>: the text of the \<open>sqlite3.Error\<close> it raises, or the store as
  it is once opened; a file that was missing has then been created, empty.
\<close>

definition sqlite_connect :: "database \<Rightarrow> string + database" where
  "sqlite_connect db =
     (case db of
        Unsearchable \<Rightarrow> Inl ''unable to open database file''
      | NoDirectory \<Rightarrow> Inl ''unable to open database file''
      | NoFile \<Rightarrow> Inr Empty
      | _ \<Rightarrow> Inr db)"

text \<open>
  \<open>cursor.execute\<close> and \<open>cursor.fetchall\<close> on an opened store, for the two queries: the
  rows, or the text of the \<open>sqlite3.Error\<close> raised.
\<close>

definition fetch_sessions :: "database \<Rightarrow> string + session_row list" where
  "fetch_sessions conn =
     (case conn of
        Tables ss ms \<Rightarrow> Inr (sessions_query ss)
      | Failing e \<Rightarrow> Inl e
      | _ \<Rightarrow> Inl ''no such table: sessions'')"

definition fetch_messages ::
  "database \<Rightarrow> string \<Rightarrow> string + (string \<times> string \<times> string) list" where
  "fetch_messages conn nm =
     (case conn of
        Tables ss ms \<Rightarrow> Inr (history_query ms nm)
      | Failing e \<Rightarrow> Inl e
      | _ \<Rightarrow> Inl ''no such table: messages'')"

section \<open>The terminal front-end (goose-tui.py)\<close>

text \<open>\<open>ChatBubble(role, content, timestamp)\<close>, also the shape of a \<open>chat_history\<close> entry.\<close>

record bubble =
  role :: string
  content :: string
  timestamp :: string

text \<open>
  The state of \<open>GooseTUI\<close>: its attributes, the children of the \<open>#chat-messages\<close>
  container, the labels of the \<open>#session-list\<close> items and the text of
  \<open>#session-status\<close>; \<open>spawned\<close> logs the child processes created and \<open>ticks\<close>
  counts the readings of the clock.
\<close>

record tui_state =
  current_session_name :: string
  chat_history :: "bubble list"
  chat_messages :: "bubble list"
  session_list :: "string list"
  session_status :: string
  spawned :: "string list list"
  ticks :: nat

definition hms :: string where
  "hms = ''%H:%M:%S''"

definition add_system_message :: "world \<Rightarrow> string \<Rightarrow> tui_state \<Rightarrow> tui_state" where
  "add_system_message w message st =
     st\<lparr>chat_messages := chat_messages st @
           [\<lparr>role = ''system'', content = message, timestamp = clock w (ticks st) hms\<rparr>],
        ticks := Suc (ticks st)\<rparr>"

definition add_user_message :: "world \<Rightarrow> string \<Rightarrow> tui_state \<Rightarrow> tui_state" where
  "add_user_message w message st =
     (let b = \<lparr>role = ''user'', content = message, timestamp = clock w (ticks st) hms\<rparr>
      in st\<lparr>chat_messages := chat_messages st @ [b],
            chat_history := chat_history st @ [b],
            ticks := Suc (ticks st)\<rparr>)"

definition add_goose_message :: "world \<Rightarrow> string \<Rightarrow> tui_state \<Rightarrow> tui_state" where
  "add_goose_message w message st =
     (let b = \<lparr>role = ''assistant'', content = message, timestamp = clock w (ticks st) hms\<rparr>
      in st\<lparr>chat_messages := chat_messages st @ [b],
            chat_history := chat_history st @ [b],
            ticks := Suc (ticks st)\<rparr>)"

definition start_cmd :: "string \<Rightarrow> string list" where
  "start_cmd nm = [''goose'', ''session'', ''start'', ''-n'', nm]"

definition resume_cmd :: "string \<Rightarrow> string \<Rightarrow> string list" where
  "resume_cmd nm message = [''goose'', ''session'', ''resume'', ''-n'', nm, ''-t'', message]"

definition run_cmd :: "string \<Rightarrow> string list" where
  "run_cmd message = [''goose'', ''run'', ''-t'', message]"

text \<open>\<open>start_new_session(name)\<close>; \<open>None\<close> and the empty name both count as no name.\<close>

definition start_new_session :: "world \<Rightarrow> string option \<Rightarrow> tui_state \<Rightarrow> tui_state" where
  "start_new_session w name_arg st =
     (let unnamed = (name_arg = None \<or> name_arg = Some []);
          nm = (if unnamed then ''session_'' @ clock w (ticks st) ''%Y%m%d_%H%M%S''
                else the name_arg);
          st0 = (if unnamed then st\<lparr>ticks := Suc (ticks st)\<rparr> else st);
          st1 = st0\<lparr>current_session_name := nm, chat_history := [],
                    session_status := ''[cyan]'' @ nm @ ''[/]''\<rparr>;
          st2 = add_system_message w (emoji_new @ '' Started new session: '' @ nm) st1;
          st3 = st2\<lparr>spawned := record_spawn w (start_cmd nm) (spawned st2)\<rparr>
      in case subprocess_run w (start_cmd nm) 10 of
           Inr p \<Rightarrow>
             add_system_message w
               (emoji_check @ '' Goose session '' @ quote @ nm @ quote @ '' initialized'') st3
         | Inl e \<Rightarrow>
             add_system_message w (emoji_warning @ '' Session init error: '' @ str_exc w e) st3)"

text \<open>The loop \<open>for line in process.stdout\<close> of \<open>send_to_goose\<close>.\<close>

fun read_lines :: "string list \<Rightarrow> string list \<Rightarrow> string list" where
  "read_lines [] response_lines = response_lines"
| "read_lines (line # rest) response_lines =
     (if strip line \<noteq> [] then read_lines rest (response_lines @ [strip line])
      else read_lines rest response_lines)"

text \<open>The two \<open>except\<close> clauses of \<open>send_to_goose\<close>, in the source's order.\<close>

fun send_to_goose_except :: "world \<Rightarrow> exc \<Rightarrow> tui_state \<Rightarrow> tui_state" where
  "send_to_goose_except w (TimeoutExpired cmd t) st =
     add_system_message w (emoji_stopwatch @ '' Request timed out'') st"
| "send_to_goose_except w e st =
     add_system_message w (emoji_cross @ '' Error: '' @ str_exc w e) st"

definition no_output :: string where
  "no_output = emoji_check @ '' Task completed (no output)''"

definition send_to_goose :: "world \<Rightarrow> string \<Rightarrow> tui_state \<Rightarrow> tui_state" where
  "send_to_goose w message st =
     (if strip message = [] then st
      else
        let st1 = add_user_message w message st;
            st2 = add_system_message w (emoji_goose @ '' Goose is thinking...'') st1;
            cmd = (if current_session_name st2 \<noteq> []
                   then resume_cmd (current_session_name st2) message
                   else run_cmd message)
        in case Popen w cmd of
             Inl e \<Rightarrow> send_to_goose_except w e st2
           | Inr process \<Rightarrow>
               let st3 = st2\<lparr>spawned := spawned st2 @ [cmd]\<rparr>;
                   response_lines = read_lines (stdout_lines process) [];
                   full_response = join newline response_lines;
                   st4 = (if full_response \<noteq> [] then add_goose_message w full_response st3
                          else add_goose_message w no_output st3)
               in if returncode process \<noteq> 0
                  then (if stderr_text process \<noteq> []
                        then add_system_message w
                               (emoji_warning @ '' Error: '' @ stderr_text process) st4
                        else st4)
                  else st4)"

definition session_label :: "session_row \<Rightarrow> string" where
  "session_label r =
     emoji_folder @ '' '' @ s_name r @ newline @ ''[dim]'' @ s_last_accessed r @ ''[/]''"

text \<open>
  \<open>load_recent_sessions\<close>: the query of the web front-end with \<open>LIMIT 10\<close>. The test
  whether the file exists stands before the \<open>try\<close>: what it raises leaves the function.
  Inside the \<open>try\<close>, what \<open>sqlite3\<close> raises is caught by the first \<open>except\<close> clause.
\<close>

definition db_error :: "world \<Rightarrow> string \<Rightarrow> tui_state \<Rightarrow> tui_state" where
  "db_error w e st = add_system_message w (emoji_warning @ '' DB error: '' @ e) st"

definition load_recent_sessions :: "world \<Rightarrow> database \<Rightarrow> tui_state \<Rightarrow> exc + tui_state" where
  "load_recent_sessions w db st =
     (case db_exists db of
        Inl e \<Rightarrow> Inl e
      | Inr found \<Rightarrow>
          if \<not> found
          then Inr (add_system_message w (emoji_folder @ '' No sessions database found'') st)
          else
            (case sqlite_connect db of
               Inl e \<Rightarrow> Inr (db_error w e st)
             | Inr conn \<Rightarrow>
                 (case fetch_sessions conn of
                    Inl e \<Rightarrow> Inr (db_error w e st)
                  | Inr rows \<Rightarrow>
                      let sessions = take 10 rows;
                          st1 = st\<lparr>session_list := session_list st @ map session_label sessions\<rparr>
                      in Inr (if sessions \<noteq> []
                              then add_system_message w
                                     (emoji_clipboard @ '' Loaded '' @
                                      str_nat (length sessions) @ '' recent sessions'') st1
                              else st1))))"

text \<open>
  \<open>load_session_history\<close> does not test whether the file exists: \<open>sqlite3.connect\<close> is
  its first step, and whatever is raised is caught. The result is the new state and the
  store as the call leaves it.
\<close>

definition history_error :: "world \<Rightarrow> string \<Rightarrow> tui_state \<Rightarrow> tui_state" where
  "history_error w e st = add_system_message w (emoji_warning @ '' Error loading history: '' @ e) st"

definition load_session_history ::
  "world \<Rightarrow> database \<Rightarrow> string \<Rightarrow> tui_state \<Rightarrow> tui_state \<times> database" where
  "load_session_history w db session_name st =
     (case sqlite_connect db of
        Inl e \<Rightarrow> (history_error w e st, db)
      | Inr conn \<Rightarrow>
          (case fetch_messages conn session_name of
             Inl e \<Rightarrow> (history_error w e st, conn)
           | Inr messages \<Rightarrow>
               let st1 = st\<lparr>chat_messages :=
                              map (\<lambda>(r, c, t). \<lparr>role = r, content = c, timestamp = t\<rparr>) messages,
                            current_session_name := session_name\<rparr>
               in (add_system_message w
                     (emoji_clipboard @ '' Loaded '' @ str_nat (length messages) @
                      '' messages from '' @ quote @ session_name @ quote) st1,
                   conn)))"

text \<open>
  \<open>on_mount\<close>: the two \<open>except\<close> clauses in the source's order; they catch what the
  version check raises and what \<open>load_recent_sessions\<close> lets out.
\<close>

fun on_mount_except :: "world \<Rightarrow> exc \<Rightarrow> tui_state \<Rightarrow> tui_state" where
  "on_mount_except w FileNotFoundError st =
     add_system_message w
       (emoji_cross @ '' Goose CLI not found!'' @ newline @
        ''Install: pip install goose-ai'' @ newline @
        ''Or: pipx install goose-ai'') st"
| "on_mount_except w e st = add_system_message w (emoji_warning @ '' Error: '' @ str_exc w e) st"

definition on_mount :: "world \<Rightarrow> database \<Rightarrow> tui_state \<Rightarrow> tui_state" where
  "on_mount w db st =
     (let st1 = add_system_message w ''Initializing Goose CLI...'' st;
          cmd = [''goose'', ''--version''];
          st2 = st1\<lparr>spawned := record_spawn w cmd (spawned st1)\<rparr>
      in case subprocess_run w cmd 5 of
           Inl e \<Rightarrow> on_mount_except w e st2
         | Inr result \<Rightarrow>
             let version = strip (concat (stdout_lines result));
                 st3 = add_system_message w
                         (emoji_check @ '' Goose CLI '' @ version @ '' detected'') st2
             in (case load_recent_sessions w db st3 of
                   Inl e \<Rightarrow> on_mount_except w e st3
                 | Inr st4 \<Rightarrow> start_new_session w (Some ''default'') st4))"

section \<open>The web front-end (goose-web.py)\<close>

text \<open>
  The events sent over the socket: \<open>emit\<close> answers the client whose request is being
  handled, \<open>socketio.emit\<close> (from the worker thread) goes to every client.
\<close>

datatype event =
    EvMessage string string string
  | EvPartialResponse string
  | EvError string
  | EvSessionCreated string string
  | EvStatus string

datatype audience = Sender | Everyone

text \<open>
  A worker thread running \<open>run_goose\<close> for one request. Its closure holds the session
  name and the message; the thread is created and has not run yet, or reads its process's
  output (with the process, the lines not yet read and \<open>response_lines\<close>), or has ended.
\<close>

datatype phase =
    Created
  | Streaming proc "string list" "string list"
  | Ended

record worker =
  w_session :: string
  w_message :: string
  phase :: phase

record web_state =
  config :: "json dict"
  config_file :: "json dict option"
  emitted :: "(audience \<times> event) list"
  threads :: "worker list"
  web_spawned :: "string list list"
  web_ticks :: nat

definition default_config :: "json dict" where
  "default_config =
     [(''provider'', JStr ''openai''), (''model'', JStr ''gpt-4''),
      (''port'', JInt 8080), (''host'', JStr ''localhost'')]"

definition load_config :: "json dict option \<Rightarrow> json dict" where
  "load_config file = (case file of Some c \<Rightarrow> c | None \<Rightarrow> default_config)"

datatype request = Get | Post "json dict"

text \<open>\<open>api_config\<close>: the JSON body and status code of the response, and the new state.\<close>

definition api_config :: "request \<Rightarrow> web_state \<Rightarrow> (json \<times> nat) \<times> web_state" where
  "api_config req st =
     (case req of
        Post data \<Rightarrow>
          let cfg = dict_update (config st) data;
              st1 = st\<lparr>config := cfg, config_file := Some cfg\<rparr>
          in ((JObj [(''status'', JStr ''success''), (''config'', JObj cfg)], 200), st1)
      | Get \<Rightarrow> ((JObj (config st), 200), st))"

definition session_json :: "session_row \<Rightarrow> json" where
  "session_json r =
     JObj [(''name'', JStr (s_name r)), (''created'', JStr (s_created_at r)),
           (''accessed'', JStr (s_last_accessed r)),
           (''directory'', case s_directory r of None \<Rightarrow> JNull | Some d \<Rightarrow> JStr d)]"

text \<open>
  \<open>api_sessions\<close>: the JSON body and status code of the response. The test whether the
  file exists stands before the \<open>try\<close>: what it raises leaves the handler.
\<close>

definition api_sessions :: "database \<Rightarrow> exc + (json \<times> nat)" where
  "api_sessions db =
     (case db_exists db of
        Inl e \<Rightarrow> Inl e
      | Inr found \<Rightarrow>
          if \<not> found then Inr (JObj [(''sessions'', JArr [])], 200)
          else
            (case sqlite_connect db of
               Inl e \<Rightarrow> Inr (JObj [(''error'', JStr e)], 500)
             | Inr conn \<Rightarrow>
                 (case fetch_sessions conn of
                    Inl e \<Rightarrow> Inr (JObj [(''error'', JStr e)], 500)
                  | Inr rows \<Rightarrow>
                      Inr (JObj [(''sessions'', JArr (map session_json rows))], 200))))"

definition message_json :: "string \<times> string \<times> string \<Rightarrow> json" where
  "message_json row =
     (case row of (r, c, t) \<Rightarrow>
        JObj [(''role'', JStr r), (''content'', JStr c), (''timestamp'', JStr t)])"

definition api_session_history :: "database \<Rightarrow> string \<Rightarrow> exc + (json \<times> nat)" where
  "api_session_history db nm =
     (case db_exists db of
        Inl e \<Rightarrow> Inl e
      | Inr found \<Rightarrow>
          if \<not> found then Inr (JObj [(''messages'', JArr [])], 200)
          else
            (case sqlite_connect db of
               Inl e \<Rightarrow> Inr (JObj [(''error'', JStr e)], 500)
             | Inr conn \<Rightarrow>
                 (case fetch_messages conn nm of
                    Inl e \<Rightarrow> Inr (JObj [(''error'', JStr e)], 500)
                  | Inr rows \<Rightarrow>
                      Inr (JObj [(''messages'', JArr (map message_json rows))], 200))))"

definition emit :: "audience \<Rightarrow> event \<Rightarrow> web_state \<Rightarrow> web_state" where
  "emit a ev st = st\<lparr>emitted := emitted st @ [(a, ev)]\<rparr>"

text \<open>
  \<open>handle_message\<close>: the payload's fields are strings. The handler echoes the message and
  starts a thread; it does not wait for it.
\<close>

definition handle_message :: "world \<Rightarrow> string dict \<Rightarrow> web_state \<Rightarrow> web_state" where
  "handle_message w data st =
     (let message = dict_get data ''message'' [];
          session_name = dict_get data ''session'' ''default''
      in if message = [] then st
         else
           let st1 = emit Sender (EvMessage ''user'' message (clock_iso w (web_ticks st))) st;
               st2 = st1\<lparr>web_ticks := Suc (web_ticks st1)\<rparr>
           in st2\<lparr>threads := threads st2 @
                  [\<lparr>w_session = session_name, w_message = message, phase = Created\<rparr>]\<rparr>)"

text \<open>The loop \<open>for line in process.stdout\<close> of \<open>run_goose\<close>, which also emits each line.\<close>

fun stream_lines :: "string list \<Rightarrow> string list \<times> web_state \<Rightarrow> string list \<times> web_state" where
  "stream_lines [] acc = acc"
| "stream_lines (line # rest) (response_lines, st) =
     (if strip line \<noteq> []
      then stream_lines rest
             (response_lines @ [strip line], emit Everyone (EvPartialResponse (strip line)) st)
      else stream_lines rest (response_lines, st))"

text \<open>The body of \<open>run_goose\<close>, run from its start to its end.\<close>

definition run_goose :: "world \<Rightarrow> string \<Rightarrow> string \<Rightarrow> web_state \<Rightarrow> web_state" where
  "run_goose w session_name message st =
     (let cmd = resume_cmd session_name message
      in case Popen w cmd of
           Inl e \<Rightarrow> emit Everyone (EvError (str_exc w e)) st
         | Inr process \<Rightarrow>
             let st1 = st\<lparr>web_spawned := web_spawned st @ [cmd]\<rparr>;
                 (response_lines, st2) = stream_lines (stdout_lines process) ([], st1);
                 full_response = join newline response_lines;
                 st3 = emit Everyone
                         (EvMessage ''assistant'' full_response (clock_iso w (web_ticks st2))) st2
             in st3\<lparr>web_ticks := Suc (web_ticks st3)\<rparr>)"

text \<open>\<open>handle_new_session\<close>: \<open>data.get('name') or f"session_..."\<close>.\<close>

definition handle_new_session :: "world \<Rightarrow> string dict \<Rightarrow> web_state \<Rightarrow> web_state" where
  "handle_new_session w data st =
     (let given = dict_get data ''name'' [];
          nm = (if given \<noteq> [] then given
                else ''session_'' @ clock w (web_ticks st) ''%Y%m%d_%H%M%S'');
          st0 = (if given \<noteq> [] then st else st\<lparr>web_ticks := Suc (web_ticks st)\<rparr>);
          st1 = st0\<lparr>web_spawned := record_spawn w (start_cmd nm) (web_spawned st0)\<rparr>
      in case subprocess_run w (start_cmd nm) 10 of
           Inr p \<Rightarrow> emit Sender (EvSessionCreated nm ''success'') st1
         | Inl e \<Rightarrow> emit Sender (EvError (''Failed to create session: '' @ str_exc w e)) st1)"

section \<open>Observations on a response\<close>

text \<open>
  What a client sees in a JSON response: the text under the key \<open>error\<close>, if any, and
  the list under a given key, if any.
\<close>

definition response_warning :: "json \<times> nat \<Rightarrow> string option" where
  "response_warning resp =
     (case fst resp of
        JObj d \<Rightarrow> (case map_of d ''error'' of Some (JStr e) \<Rightarrow> Some e | _ \<Rightarrow> None)
      | _ \<Rightarrow> None)"

definition response_list :: "string \<Rightarrow> json \<times> nat \<Rightarrow> json list option" where
  "response_list k resp =
     (case fst resp of
        JObj d \<Rightarrow> (case map_of d k of Some (JArr xs) \<Rightarrow> Some xs | _ \<Rightarrow> None)
      | _ \<Rightarrow> None)"

section \<open>What an invocation captures\<close>

text \<open>
  The captured non-empty output lines of a run: each line the process wrote, stripped,
  those that are not empty, in the order written. The command line the terminal front-end
  runs for a prompt.
\<close>

definition captured_lines :: "string list \<Rightarrow> string list" where
  "captured_lines ls = filter (\<lambda>l. l \<noteq> []) (map strip ls)"

definition tui_cmd :: "tui_state \<Rightarrow> string \<Rightarrow> string list" where
  "tui_cmd st message =
     (if current_session_name st \<noteq> [] then resume_cmd (current_session_name st) message
      else run_cmd message)"

section \<open>Worker threads of the web front-end\<close>

text \<open>
  \<open>handle_message\<close> starts a thread and returns; the threads then run side by side. One
  step of the thread at position \<open>i\<close>, following \<open>run_goose\<close>: a created thread opens its
  process (or fails and emits the error); a reading thread takes the next line of its
  process's output, keeps and emits it when it is not blank, and at the end of the output
  emits the joined lines as the assistant message.
\<close>

definition set_phase :: "nat \<Rightarrow> phase \<Rightarrow> web_state \<Rightarrow> web_state" where
  "set_phase i ph st = st\<lparr>threads := (threads st)[i := (threads st ! i)\<lparr>phase := ph\<rparr>]\<rparr>"

definition worker_step :: "world \<Rightarrow> nat \<Rightarrow> web_state \<Rightarrow> web_state" where
  "worker_step w i st =
     (if length (threads st) \<le> i then st
      else
        let t = threads st ! i;
            cmd = resume_cmd (w_session t) (w_message t)
        in case phase t of
             Created \<Rightarrow>
               (case Popen w cmd of
                  Inl e \<Rightarrow> set_phase i Ended (emit Everyone (EvError (str_exc w e)) st)
                | Inr process \<Rightarrow>
                    set_phase i (Streaming process (stdout_lines process) [])
                      (st\<lparr>web_spawned := web_spawned st @ [cmd]\<rparr>))
           | Streaming process pending response_lines \<Rightarrow>
               (case pending of
                  [] \<Rightarrow>
                    set_phase i Ended
                      ((emit Everyone
                          (EvMessage ''assistant'' (join newline response_lines)
                             (clock_iso w (web_ticks st))) st)
                       \<lparr>web_ticks := Suc (web_ticks st)\<rparr>)
                | line # rest \<Rightarrow>
                    if strip line \<noteq> []
                    then set_phase i (Streaming process rest (response_lines @ [strip line]))
                           (emit Everyone (EvPartialResponse (strip line)) st)
                    else set_phase i (Streaming process rest response_lines) st)
           | Ended \<Rightarrow> st)"

text \<open>
  What happens to the web front-end, in order: a \<open>send_message\<close> event arrives, or the
  scheduler lets thread \<open>i\<close> take a step.
\<close>

datatype action = Request "string dict" | Step nat

fun perform :: "world \<Rightarrow> action \<Rightarrow> web_state \<Rightarrow> web_state" where
  "perform w (Request data) st = handle_message w data st"
| "perform w (Step i) st = worker_step w i st"

definition run_web :: "world \<Rightarrow> action list \<Rightarrow> web_state \<Rightarrow> web_state" where
  "run_web w acts st = fold (perform w) acts st"

text \<open>The sessions whose agent process is running, one entry for each such process.\<close>

fun is_streaming :: "phase \<Rightarrow> bool" where
  "is_streaming (Streaming p pending response_lines) = True"
| "is_streaming ph = False"

definition active_sessions :: "web_state \<Rightarrow> string list" where
  "active_sessions st = map w_session (filter (\<lambda>t. is_streaming (phase t)) (threads st))"

text \<open>The contents of the assistant messages among the events, in order.\<close>

fun assistant_contents :: "(audience \<times> event) list \<Rightarrow> string list" where
  "assistant_contents [] = []"
| "assistant_contents ((a, EvMessage r c t) # evs) =
     (if r = ''assistant'' then c # assistant_contents evs else assistant_contents evs)"
| "assistant_contents (ev # evs) = assistant_contents evs"

text \<open>The partial responses among the events, in order.\<close>

fun partial_responses :: "(audience \<times> event) list \<Rightarrow> string list" where
  "partial_responses [] = []"
| "partial_responses ((a, EvPartialResponse l) # evs) = l # partial_responses evs"
| "partial_responses (ev # evs) = partial_responses evs"

text \<open>The aggregated message of a worker's own run: its captured lines, joined.\<close>

definition aggregate_of :: "(string list \<Rightarrow> proc) \<Rightarrow> worker \<Rightarrow> string" where
  "aggregate_of g t =
     join newline (captured_lines (stdout_lines (g (resume_cmd (w_session t) (w_message t)))))"

text \<open>The session and message of each request that carries a message, in order.\<close>

fun accepted_requests :: "action list \<Rightarrow> (string \<times> string) list" where
  "accepted_requests [] = []"
| "accepted_requests (Request data # acts) =
     (if dict_get data ''message'' [] = [] then accepted_requests acts
      else (dict_get data ''session'' ''default'', dict_get data ''message'' []) #
           accepted_requests acts)"
| "accepted_requests (Step i # acts) = accepted_requests acts"

text \<open>
  A worker's buffer holds lines of its own run only: with the captured lines still to come
  it makes up the captured lines of the run of its own command line.
\<close>

definition own_lines :: "(string list \<Rightarrow> proc) \<Rightarrow> worker \<Rightarrow> bool" where
  "own_lines g t =
     (case phase t of
        Streaming p pending response_lines \<Rightarrow>
          response_lines @ captured_lines pending =
            captured_lines (stdout_lines (g (resume_cmd (w_session t) (w_message t))))
      | _ \<Rightarrow> True)"

definition web_inv :: "(string list \<Rightarrow> proc) \<Rightarrow> web_state \<Rightarrow> bool" where
  "web_inv g st \<longleftrightarrow>
     list_all (own_lines g) (threads st) \<and>
     mset (assistant_contents (emitted st)) =
       mset (map (aggregate_of g) (filter (\<lambda>t. phase t = Ended) (threads st)))"

text \<open>
  A scenario: two \<open>send_message\<close> events for the session \<open>demo\<close> arrive one after the
  other, and the two threads then take turns. The agent answers the message \<open>one\<close> with
  the lines \<open>a1\<close>, \<open>a2\<close> and any other message with \<open>b1\<close>, \<open>b2\<close>.
\<close>

definition demo_agent :: "string list \<Rightarrow> proc" where
  "demo_agent cmd =
     (if cmd = resume_cmd ''demo'' ''one''
      then \<lparr>stdout_lines = [''a1\<newline>'', ''a2\<newline>''], stderr_text = [],
             returncode = 0, duration = 5\<rparr>
      else \<lparr>stdout_lines = [''b1\<newline>'', ''b2\<newline>''], stderr_text = [],
             returncode = 0, duration = 5\<rparr>)"

definition demo_world :: world where
  "demo_world =
     \<lparr>goose = Some demo_agent, clock = (\<lambda>k fmt. ''12:00:00''),
      clock_iso = (\<lambda>k. ''2024-01-01T12:00:00''), str_exc = (\<lambda>e. ''error'')\<rparr>"

definition fresh_web :: web_state where
  "fresh_web =
     \<lparr>config = default_config, config_file = None, emitted = [], threads = [],
      web_spawned = [], web_ticks = 0\<rparr>"

definition fresh_tui :: tui_state where
  "fresh_tui =
     \<lparr>current_session_name = [], chat_history = [], chat_messages = [],
      session_list = [], session_status = [], spawned = [], ticks = 0\<rparr>"

definition two_requests :: "action list" where
  "two_requests =
     [Request [(''session'', ''demo''), (''message'', ''one'')],
      Request [(''session'', ''demo''), (''message'', ''two'')],
      Step 0, Step 1]"

definition taking_turns :: "action list" where
  "taking_turns = two_requests @ [Step 0, Step 1, Step 0, Step 1, Step 0, Step 1]"

text \<open>
  The name a start request resolves to: the given one, or one made from the clock.
\<close>

definition generated_name :: "world \<Rightarrow> nat \<Rightarrow> string" where
  "generated_name w k = ''session_'' @ clock w k ''%Y%m%d_%H%M%S''"

definition tui_session_name :: "world \<Rightarrow> tui_state \<Rightarrow> string option \<Rightarrow> string" where
  "tui_session_name w st name_arg =
     (case name_arg of
        None \<Rightarrow> generated_name w (ticks st)
      | Some n \<Rightarrow> if n = [] then generated_name w (ticks st) else n)"

definition web_session_name :: "world \<Rightarrow> web_state \<Rightarrow> string dict \<Rightarrow> string" where
  "web_session_name w st data =
     (if dict_get data ''name'' [] \<noteq> [] then dict_get data ''name'' []
      else generated_name w (web_ticks st))"

text \<open>The same world with every run of the agent taking \<open>d\<close> seconds.\<close>

definition lasting :: "real \<Rightarrow> world \<Rightarrow> world" where
  "lasting d w = w\<lparr>goose := map_option (\<lambda>g cmd. (g cmd)\<lparr>duration := d\<rparr>) (goose w)\<rparr>"

section \<open>Configuration update\<close>

lemma map_of_dict_update:
  "map_of (dict_update d data) = map_of d ++ map_of (rev data)"
proof (induction data arbitrary: d)
  case Nil
  show ?case by (simp add: dict_update_def)
next
  case (Cons kv data)
  obtain k v where kv: "kv = (k, v)" by (cases kv)
  have "map_of (dict_update d (kv # data)) = map_of (dict_update (AList.update k v d) data)"
    by (simp add: dict_update_def kv)
  also have "\<dots> = map_of (AList.update k v d) ++ map_of (rev data)"
    by (rule Cons.IH)
  also have "\<dots> = map_of d ++ map_of (rev (kv # data))"
    by (simp add: kv update_conv' map_add_upd_left fun_eq_iff map_add_def split: option.splits)
  finally show ?case .
qed


text \<open>
  C10. A configuration update (\<open>POST /api/config\<close>) merges the keys of the request body
  into the configuration: a key the body does not mention keeps its value, a key the body
  mentions takes the body's value, and the merged configuration is what is written to the
  configuration file and what the response carries.
\<close>

theorem api_config_post_merges:
  "api_config (Post data) st = (resp, st') \<Longrightarrow>
     (\<forall>k. k \<notin> fst ` set data \<longrightarrow> map_of (config st') k = map_of (config st) k) \<and>
     (\<forall>k v. distinct (map fst data) \<and> (k, v) \<in> set data \<longrightarrow> map_of (config st') k = Some v) \<and>
     config st' = dict_update (config st) data \<and>
     config_file st' = Some (config st') \<and>
     resp = (JObj [(''status'', JStr ''success''), (''config'', JObj (config st'))], 200)"
proof -
  assume a: "api_config (Post data) st = (resp, st')"
  have cfg: "config st' = dict_update (config st) data"
    and saved: "config_file st' = Some (dict_update (config st) data)"
    and resp: "resp = (JObj [(''status'', JStr ''success''),
                            (''config'', JObj (dict_update (config st) data))], 200)"
    using a by (auto simp: api_config_def Let_def)
  have keep: "map_of (config st') k = map_of (config st) k" if "k \<notin> fst ` set data" for k
  proof -
    have "map_of (rev data) k = None"
      using that by (simp add: map_of_eq_None_iff)
    then show ?thesis
      by (simp add: cfg map_of_dict_update map_add_def)
  qed
  have take: "map_of (config st') k = Some v"
    if "distinct (map fst data)" "(k, v) \<in> set data" for k v
  proof -
    have "map_of (rev data) k = Some v"
      using that by (simp add: distinct_rev rev_map [symmetric] del: rev_map)
    then show ?thesis
      by (simp add: cfg map_of_dict_update map_add_def)
  qed
  show ?thesis
    using keep take cfg saved resp by simp
qed

theorem api_config_post_merges_witness:
  "(let st = \<lparr>config = default_config, config_file = None, emitted = [], threads = [],
              web_spawned = [], web_ticks = 0\<rparr>;
        data = [(''model'', JStr ''gpt-4o''), (''debug'', JBool True)];
        (resp, st') = api_config (Post data) st
    in map_of (config st') ''provider'' = Some (JStr ''openai'') \<and>
       map_of (config st') ''model'' = Some (JStr ''gpt-4o'') \<and>
       config st' = [(''provider'', JStr ''openai''), (''model'', JStr ''gpt-4o''),
                     (''port'', JInt 8080), (''host'', JStr ''localhost''),
                     (''debug'', JBool True)] \<and>
       config_file st' = Some (config st') \<and>
       resp = (JObj [(''status'', JStr ''success''), (''config'', JObj (config st'))], 200))"
proof -
  define st where "st = \<lparr>config = default_config, config_file = None, emitted = [],
    threads = [], web_spawned = [], web_ticks = 0\<rparr>"
  define data where "data = [(''model'', JStr ''gpt-4o''), (''debug'', JBool True)]"
  obtain resp st' where r: "api_config (Post data) st = (resp, st')"
    by (cases "api_config (Post data) st")
  have d: "distinct (map fst data)" "(''model'', JStr ''gpt-4o'') \<in> set data"
    "''provider'' \<notin> fst ` set data"
    by (simp_all add: data_def)
  from api_config_post_merges [OF r] d
  have "map_of (config st') ''provider'' = map_of (config st) ''provider''"
    and "map_of (config st') ''model'' = Some (JStr ''gpt-4o'')"
    and c: "config st' = dict_update (config st) data"
    and "config_file st' = Some (config st')"
    and "resp = (JObj [(''status'', JStr ''success''), (''config'', JObj (config st'))], 200)"
    by blast+
  moreover have "map_of (config st) ''provider'' = Some (JStr ''openai'')"
    by (simp add: st_def default_config_def)
  moreover have "dict_update (config st) data =
      [(''provider'', JStr ''openai''), (''model'', JStr ''gpt-4o''),
       (''port'', JInt 8080), (''host'', JStr ''localhost''), (''debug'', JBool True)]"
    by (simp add: st_def data_def default_config_def dict_update_def)
  ultimately show ?thesis
    unfolding st_def [symmetric] data_def [symmetric] by (simp add: r)
qed

section \<open>Empty prompts\<close>

lemma drop_spaces_one:
  "isspace1 a \<Longrightarrow> drop_spaces p2 p3 (a # s) = drop_spaces p2 p3 s"
  by (cases "(p2, p3, a # s)" rule: drop_spaces.cases) auto

lemma drop_spaces_two:
  "\<not> isspace1 a \<Longrightarrow> p2 a b \<Longrightarrow> drop_spaces p2 p3 (a # b # s) = drop_spaces p2 p3 s"
  by (cases "(p2, p3, a # b # s)" rule: drop_spaces.cases) auto

lemma drop_spaces_three:
  "\<not> isspace1 a \<Longrightarrow> \<not> p2 a b \<Longrightarrow> p3 a b c \<Longrightarrow>
   drop_spaces p2 p3 (a # b # c # s) = drop_spaces p2 p3 s"
  by simp

lemma lstrip_whitespace:
  assumes "x \<in> set whitespace"
  shows "lstrip (x @ s) = lstrip s"
proof -
  consider a where "x = [a]" "isspace1 a"
    | a b where "x = [a, b]" "\<not> isspace1 a" "isspace2 a b"
    | a b c where "x = [a, b, c]" "\<not> isspace1 a" "\<not> isspace2 a b" "isspace3 a b c"
    using assms unfolding whitespace_def isspace1_def isspace2_def isspace3_def
    by (elim disjE | simp)+
  then show ?thesis
  proof cases
    case 1
    then show ?thesis by (simp add: lstrip_def drop_spaces_one)
  next
    case 2
    then show ?thesis by (simp add: lstrip_def drop_spaces_two)
  next
    case 3
    then show ?thesis by (simp add: lstrip_def drop_spaces_three del: drop_spaces.simps)
  qed
qed

lemma strip_examples:
  "strip ''  hello world \<newline>'' = ''hello world''"
  "strip ([CHR 0xC2, CHR 0xA0] @ ''hi'' @ [CHR 0xE2, CHR 0x80, CHR 0xA8]) = ''hi''"
  "strip ([CHR 0xE3, CHR 0x80, CHR 0x80] @ [CHR 0xC2, CHR 0x85] @ ''\<newline>'') = []"
  "strip [CHR 0xC3, CHR 0xA9] = [CHR 0xC3, CHR 0xA9]"
  by code_simp+

lemma strip_whitespace_only:
  assumes "set codes \<subseteq> set whitespace"
  shows "strip (concat codes) = []"
proof -
  have "lstrip (concat codes) = []"
    using assms
  proof (induction codes)
    case Nil
    show ?case by (simp add: lstrip_def)
  next
    case (Cons x codes)
    then show ?case by (simp add: lstrip_whitespace)
  qed
  then show ?thesis
    by (simp add: strip_def rstrip_def)
qed

text \<open>
  C9. A send-message request whose prompt is empty (web front-end; a payload without a
  message counts as empty) or whitespace-only (terminal front-end: nothing is left of the
  prompt after \<open>strip()\<close>, as for every prompt made of whitespace code points) is a
  no-op: the handler returns the state it was given, so no process is created, no thread
  is started, no event is emitted and no message is recorded.
\<close>

theorem empty_prompt_is_noop:
  "(dict_get data ''message'' [] = [] \<longrightarrow> handle_message w data ws = ws) \<and>
   (strip message = [] \<longrightarrow> send_to_goose w message ts = ts) \<and>
   (set codes \<subseteq> set whitespace \<longrightarrow> send_to_goose w (concat codes) ts = ts)"
  by (simp add: handle_message_def send_to_goose_def strip_whitespace_only)

theorem empty_prompt_is_noop_witness:
  "(let w = \<lparr>goose = Some (\<lambda>cmd. \<lparr>stdout_lines = [''hello''], stderr_text = [],
                                      returncode = 0, duration = 1\<rparr>),
              clock = (\<lambda>k fmt. ''12:00:00''), clock_iso = (\<lambda>k. ''2024-01-01T12:00:00''),
              str_exc = (\<lambda>e. ''error'')\<rparr>;
        ws = \<lparr>config = default_config, config_file = None, emitted = [], threads = [],
               web_spawned = [], web_ticks = 0\<rparr>;
        ts = \<lparr>current_session_name = ''default'', chat_history = [], chat_messages = [],
               session_list = [], session_status = [], spawned = [], ticks = 0\<rparr>;
        nbsp = [CHR 0xC2, CHR 0xA0];
        wide = [CHR 0xE3, CHR 0x80, CHR 0x80]
    in dict_get [(''session'', ''demo''), (''message'', [])] ''message'' [] = [] \<and>
       handle_message w [(''session'', ''demo''), (''message'', [])] ws = ws \<and>
       dict_get [(''session'', ''demo'')] ''message'' [] = [] \<and>
       handle_message w [(''session'', ''demo'')] ws = ws \<and>
       strip '' \<newline>'' = [] \<and>
       send_to_goose w '' \<newline>'' ts = ts \<and>
       spawned (send_to_goose w '' \<newline>'' ts) = [] \<and>
       chat_history (send_to_goose w '' \<newline>'' ts) = [] \<and>
       strip nbsp = [] \<and>
       send_to_goose w nbsp ts = ts \<and>
       set [nbsp, '' '', wide] \<subseteq> set whitespace \<and>
       send_to_goose w (concat [nbsp, '' '', wide]) ts = ts \<and>
       emitted (handle_message w [(''session'', ''demo'')] ws) = [] \<and>
       threads (handle_message w [(''session'', ''demo'')] ws) = [])"
proof -
  have a: "dict_get [(''session'', ''demo''), (''message'', [])] ''message'' [] = ([]::string)"
    and b: "dict_get [(''session'', ''demo'')] ''message'' [] = ([]::string)"
    by (simp_all add: dict_get_def)
  have c: "strip '' \<newline>'' = []" "strip [CHR 0xC2, CHR 0xA0] = []"
    by code_simp+
  have d: "set [ [CHR 0xC2, CHR 0xA0], '' '', [CHR 0xE3, CHR 0x80, CHR 0x80] ] \<subseteq> set whitespace"
    by (simp add: whitespace_def)
  show ?thesis
    using a b c d
      empty_prompt_is_noop [where data = "[(''session'', ''demo''), (''message'', [])]"
        and message = "'' \<newline>''"
        and codes = "[ [CHR 0xC2, CHR 0xA0], '' '', [CHR 0xE3, CHR 0x80, CHR 0x80] ]"]
      empty_prompt_is_noop [where data = "[(''session'', ''demo'')]"
        and message = "[CHR 0xC2, CHR 0xA0]"]
    by (simp add: Let_def)
qed

section \<open>Reading the database\<close>

lemma sessions_query_sorted:
  "sorted_wrt (\<ge>) (map s_last_accessed (sessions_query ss))"
proof -
  have "sorted (map s_last_accessed (sort_key s_last_accessed (rev ss)))"
    by (rule sorted_sort_key)
  then have "sorted_wrt (\<lambda>x y. y \<ge> x) (map s_last_accessed (sort_key s_last_accessed (rev ss)))"
    by (simp add: sorted_wrt_iff_nth_less sorted_iff_nth_mono_less)
  then show ?thesis
    by (simp add: sessions_query_def rev_map [symmetric] sorted_wrt_rev del: rev_map)
qed

lemma sessions_query_mset: "mset (sessions_query ss) = mset ss"
  by (simp add: sessions_query_def)

lemma history_query_sorted: "sorted (map (snd \<circ> snd) (history_query ms nm))"
proof -
  have "map (snd \<circ> snd) (history_query ms nm) =
        map m_timestamp (sort_key m_timestamp (session_messages ms nm))"
    by (simp add: history_query_def message_fields_def comp_def)
  then show ?thesis
    by (simp add: sorted_sort_key)
qed

lemma history_query_mset:
  "mset (history_query ms nm) = mset (map message_fields (session_messages ms nm))"
  by (simp add: history_query_def)

lemma history_query_in_order:
  "sorted (map m_timestamp (session_messages ms nm)) \<Longrightarrow>
   history_query ms nm = map message_fields (session_messages ms nm)"
  by (simp add: history_query_def sort_key_id_if_sorted)

text \<open>
  C1. For every session name the history read returns that session's messages in ascending
  order of timestamp, each with the role, content and timestamp of its row, none lost and
  none added, in the web front-end's response and in the terminal front-end's chat view
  alike. The order read is the order in which the rows were appended when the timestamps
  do not decrease in append order; the claim's unconditional "equals append order" does
  not hold of \<open>ORDER BY timestamp\<close>.
\<close>

theorem history_round_trip:
  "api_session_history (Tables ss ms) nm =
     Inr (JObj [(''messages'', JArr (map message_json (history_query ms nm)))], 200) \<and>
   snd (load_session_history w (Tables ss ms) nm st) = Tables ss ms \<and>
   chat_messages (fst (load_session_history w (Tables ss ms) nm st)) =
     map (\<lambda>(r, c, t). \<lparr>role = r, content = c, timestamp = t\<rparr>) (history_query ms nm) @
     [\<lparr>role = ''system'',
       content = emoji_clipboard @ '' Loaded '' @ str_nat (length (history_query ms nm)) @
                 '' messages from '' @ quote @ nm @ quote,
       timestamp = clock w (ticks st) hms\<rparr>] \<and>
   sorted (map (snd \<circ> snd) (history_query ms nm)) \<and>
   mset (history_query ms nm) = mset (map message_fields (session_messages ms nm)) \<and>
   (sorted (map m_timestamp (session_messages ms nm)) \<longrightarrow>
      history_query ms nm = map message_fields (session_messages ms nm))"
proof -
  have "api_session_history (Tables ss ms) nm =
     Inr (JObj [(''messages'', JArr (map message_json (history_query ms nm)))], 200)"
    by (simp add: api_session_history_def db_exists_def sqlite_connect_def fetch_messages_def)
  moreover have "snd (load_session_history w (Tables ss ms) nm st) = Tables ss ms"
    by (simp add: load_session_history_def sqlite_connect_def fetch_messages_def Let_def)
  moreover have "chat_messages (fst (load_session_history w (Tables ss ms) nm st)) =
     map (\<lambda>(r, c, t). \<lparr>role = r, content = c, timestamp = t\<rparr>) (history_query ms nm) @
     [\<lparr>role = ''system'',
       content = emoji_clipboard @ '' Loaded '' @ str_nat (length (history_query ms nm)) @
                 '' messages from '' @ quote @ nm @ quote,
       timestamp = clock w (ticks st) hms\<rparr>]"
    by (simp add: load_session_history_def sqlite_connect_def fetch_messages_def
        add_system_message_def Let_def)
  ultimately show ?thesis
    using history_query_sorted [of ms nm] history_query_mset [of ms nm]
      history_query_in_order [of ms nm]
    by blast
qed

theorem history_round_trip_witness:
  "(let ms = [\<lparr>m_session_name = ''demo'', m_role = ''user'', m_content = ''hello'',
                m_timestamp = ''2024-01-01T10:00:00''\<rparr>,
              \<lparr>m_session_name = ''other'', m_role = ''user'', m_content = ''hi'',
                m_timestamp = ''2024-01-01T09:00:00''\<rparr>,
              \<lparr>m_session_name = ''demo'', m_role = ''assistant'', m_content = ''done'',
                m_timestamp = ''2024-01-01T10:00:05''\<rparr>]
    in sorted (map m_timestamp (session_messages ms ''demo'')) \<and>
       history_query ms ''demo'' =
         [(''user'', ''hello'', ''2024-01-01T10:00:00''),
          (''assistant'', ''done'', ''2024-01-01T10:00:05'')] \<and>
       api_session_history (Tables [] ms) ''demo'' =
         Inr (JObj [(''messages'', JArr
            [JObj [(''role'', JStr ''user''), (''content'', JStr ''hello''),
                   (''timestamp'', JStr ''2024-01-01T10:00:00'')],
             JObj [(''role'', JStr ''assistant''), (''content'', JStr ''done''),
                   (''timestamp'', JStr ''2024-01-01T10:00:05'')] ])], 200))"
proof -
  define ms where "ms = [\<lparr>m_session_name = ''demo'', m_role = ''user'', m_content = ''hello'',
                m_timestamp = ''2024-01-01T10:00:00''\<rparr>,
              \<lparr>m_session_name = ''other'', m_role = ''user'', m_content = ''hi'',
                m_timestamp = ''2024-01-01T09:00:00''\<rparr>,
              \<lparr>m_session_name = ''demo'', m_role = ''assistant'', m_content = ''done'',
                m_timestamp = ''2024-01-01T10:00:05''\<rparr>]"
  have s: "sorted (map m_timestamp (session_messages ms ''demo''))"
    by (simp add: ms_def session_messages_def)
  have m: "map message_fields (session_messages ms ''demo'') =
         [(''user'', ''hello'', ''2024-01-01T10:00:00''),
          (''assistant'', ''done'', ''2024-01-01T10:00:05'')]"
    by (simp add: ms_def session_messages_def message_fields_def)
  from history_round_trip [of "[]" ms "''demo''"] s m
  have "history_query ms ''demo'' =
         [(''user'', ''hello'', ''2024-01-01T10:00:00''),
          (''assistant'', ''done'', ''2024-01-01T10:00:05'')]"
    and "api_session_history (Tables [] ms) ''demo'' =
     Inr (JObj [(''messages'', JArr (map message_json (history_query ms ''demo'')))], 200)"
    by simp_all
  then show ?thesis
    unfolding ms_def [symmetric] using s by (simp add: message_json_def)
qed

theorem history_append_order_counterexample:
  "history_query
     [\<lparr>m_session_name = ''demo'', m_role = ''user'', m_content = ''first'',
       m_timestamp = ''2''\<rparr>,
      \<lparr>m_session_name = ''demo'', m_role = ''assistant'', m_content = ''second'',
       m_timestamp = ''1''\<rparr>] ''demo''
   = [(''assistant'', ''second'', ''1''), (''user'', ''first'', ''2'')] \<and>
   history_query
     [\<lparr>m_session_name = ''demo'', m_role = ''user'', m_content = ''first'',
       m_timestamp = ''2''\<rparr>,
      \<lparr>m_session_name = ''demo'', m_role = ''assistant'', m_content = ''second'',
       m_timestamp = ''1''\<rparr>] ''demo''
   \<noteq> map message_fields
       (session_messages
          [\<lparr>m_session_name = ''demo'', m_role = ''user'', m_content = ''first'',
            m_timestamp = ''2''\<rparr>,
           \<lparr>m_session_name = ''demo'', m_role = ''assistant'', m_content = ''second'',
            m_timestamp = ''1''\<rparr>] ''demo'')"
  by (simp add: history_query_def session_messages_def message_fields_def)

text \<open>
  C7. The session listing is ordered by last-accessed, descending. The web front-end
  (\<open>api_sessions\<close>) returns every session of the store; the terminal front-end
  (\<open>load_recent_sessions\<close>) lists the first ten of that order. Neither takes a limit from
  its caller.
\<close>

theorem session_listing_order:
  "api_sessions (Tables ss ms) =
     Inr (JObj [(''sessions'', JArr (map session_json (sessions_query ss)))], 200) \<and>
   map_sum id session_list (load_recent_sessions w (Tables ss ms) st) =
     Inr (session_list st @ map session_label (take 10 (sessions_query ss))) \<and>
   sorted_wrt (\<ge>) (map s_last_accessed (sessions_query ss)) \<and>
   mset (sessions_query ss) = mset ss \<and>
   length (sessions_query ss) = length ss \<and>
   length (take 10 (sessions_query ss)) = min (length ss) 10"
proof -
  have "api_sessions (Tables ss ms) =
     Inr (JObj [(''sessions'', JArr (map session_json (sessions_query ss)))], 200)"
    by (simp add: api_sessions_def db_exists_def sqlite_connect_def fetch_sessions_def)
  moreover have "map_sum id session_list (load_recent_sessions w (Tables ss ms) st) =
     Inr (session_list st @ map session_label (take 10 (sessions_query ss)))"
    by (simp add: load_recent_sessions_def db_exists_def sqlite_connect_def fetch_sessions_def
        add_system_message_def Let_def)
  moreover have "length (sessions_query ss) = length ss"
    by (simp add: sessions_query_def)
  ultimately show ?thesis
    using sessions_query_sorted [of ss] sessions_query_mset [of ss] by simp
qed

theorem session_listing_order_witness:
  "(let ss = [\<lparr>s_name = ''a'', s_created_at = ''2024-01-01'', s_last_accessed = ''2024-01-02'',
                s_directory = None\<rparr>,
              \<lparr>s_name = ''b'', s_created_at = ''2024-01-01'', s_last_accessed = ''2024-01-05'',
                s_directory = Some ''/tmp''\<rparr>,
              \<lparr>s_name = ''c'', s_created_at = ''2024-01-01'', s_last_accessed = ''2024-01-03'',
                s_directory = None\<rparr>]
    in map s_name (sessions_query ss) = [''b'', ''c'', ''a''] \<and>
       sorted_wrt (\<ge>) (map s_last_accessed (sessions_query ss)) \<and>
       api_sessions (Tables ss []) =
         Inr (JObj [(''sessions'', JArr (map session_json (sessions_query ss)))], 200))"
proof -
  define ss where "ss = [\<lparr>s_name = ''a'', s_created_at = ''2024-01-01'', s_last_accessed = ''2024-01-02'',
                s_directory = None\<rparr>,
              \<lparr>s_name = ''b'', s_created_at = ''2024-01-01'', s_last_accessed = ''2024-01-05'',
                s_directory = Some ''/tmp''\<rparr>,
              \<lparr>s_name = ''c'', s_created_at = ''2024-01-01'', s_last_accessed = ''2024-01-03'',
                s_directory = None\<rparr>]"
  have "map s_name (sessions_query ss) = [''b'', ''c'', ''a'']"
    by (simp add: ss_def sessions_query_def)
  then show ?thesis
    unfolding ss_def [symmetric] using session_listing_order [of ss "[]"] by simp
qed

theorem session_listing_limit_counterexample:
  "(let db = Tables
        [\<lparr>s_name = ''a'', s_created_at = ''2024-01-01'', s_last_accessed = ''2024-01-02'',
          s_directory = None\<rparr>,
         \<lparr>s_name = ''b'', s_created_at = ''2024-01-01'', s_last_accessed = ''2024-01-05'',
          s_directory = None\<rparr>,
         \<lparr>s_name = ''c'', s_created_at = ''2024-01-01'', s_last_accessed = ''2024-01-03'',
          s_directory = None\<rparr>] [];
        w = \<lparr>goose = None, clock = (\<lambda>k fmt. ''12:00:00''), clock_iso = (\<lambda>k. []),
              str_exc = (\<lambda>e. [])\<rparr>;
        st = \<lparr>current_session_name = [], chat_history = [], chat_messages = [],
               session_list = [], session_status = [], spawned = [], ticks = 0\<rparr>;
        limit = 2
    in api_sessions db =
         Inr (JObj [(''sessions'', JArr
            [JObj [(''name'', JStr ''b''), (''created'', JStr ''2024-01-01''),
                   (''accessed'', JStr ''2024-01-05''), (''directory'', JNull)],
             JObj [(''name'', JStr ''c''), (''created'', JStr ''2024-01-01''),
                   (''accessed'', JStr ''2024-01-03''), (''directory'', JNull)],
             JObj [(''name'', JStr ''a''), (''created'', JStr ''2024-01-01''),
                   (''accessed'', JStr ''2024-01-02''), (''directory'', JNull)] ])], 200) \<and>
       map_sum id (\<lambda>s. length (session_list s)) (load_recent_sessions w db st) = Inr 3 \<and>
       map_sum id (\<lambda>s. length (session_list s) \<le> limit) (load_recent_sessions w db st) =
         Inr False)"
  by (simp add: sessions_query_def api_sessions_def session_json_def
      load_recent_sessions_def db_exists_def sqlite_connect_def fetch_sessions_def
      add_system_message_def Let_def)

section \<open>A missing or failing store\<close>

lemma start_new_session_default:
  assumes "goose w = Some g"
  shows "current_session_name (start_new_session w (Some ''default'') st) = ''default''"
    and "session_list (start_new_session w (Some ''default'') st) = session_list st"
    and "spawned (start_new_session w (Some ''default'') st) =
           spawned st @ [start_cmd ''default'']"
  using assms
  by (simp_all add: start_new_session_def Let_def record_spawn_def Popen_def
      add_system_message_def split: sum.splits)

lemma load_recent_sessions_failing:
  assumes "db = NoDirectory \<or> db = NoFile \<or> db = Empty \<or> db = Failing e"
  shows "\<exists>notice. \<forall>s. load_recent_sessions w db s = Inr (add_system_message w notice s)"
  using assms
  by (auto simp: load_recent_sessions_def db_exists_def sqlite_connect_def fetch_sessions_def
      db_error_def)

lemma on_mount_failing_store:
  assumes g: "goose w = Some g" and d: "duration (g [''goose'', ''--version'']) \<le> 5"
    and db: "db = NoDirectory \<or> db = NoFile \<or> db = Empty \<or> db = Failing e"
  shows "current_session_name (on_mount w db st) = ''default''"
    and "session_list (on_mount w db st) = session_list st"
    and "spawned (on_mount w db st) =
           spawned st @ [ [''goose'', ''--version''], start_cmd ''default'']"
proof -
  obtain notice where n: "\<And>s. load_recent_sessions w db s = Inr (add_system_message w notice s)"
    using load_recent_sessions_failing [OF db] by blast
  have run: "subprocess_run w [''goose'', ''--version''] 5 = Inr (g [''goose'', ''--version''])"
    using g d by (simp add: subprocess_run_def Popen_def)
  have rec: "record_spawn w [''goose'', ''--version''] cmds = cmds @ [ [''goose'', ''--version''] ]"
    for cmds
    using g by (simp add: record_spawn_def Popen_def)
  show "current_session_name (on_mount w db st) = ''default''"
    by (simp add: on_mount_def Let_def run n start_new_session_default [OF g])
  show "session_list (on_mount w db st) = session_list st"
    by (simp add: on_mount_def Let_def run n start_new_session_default [OF g]
        add_system_message_def)
  show "spawned (on_mount w db st) =
           spawned st @ [ [''goose'', ''--version''], start_cmd ''default'']"
    by (simp add: on_mount_def Let_def run rec n start_new_session_default [OF g]
        add_system_message_def)
qed

text \<open>
  C8. When the store answers the existence test and cannot be read (its directory or file
  is missing, it holds no table, or opening or querying it fails), every read returns and
  the front-end goes on. The terminal front-end surfaces one system notice and takes
  nothing from the store: session list, chat history, chat view and current session stay
  as they were, and \<open>on_mount\<close> goes on to start the default session. The web front-end
  answers a missing store with an empty list and status 200, without a warning, and an
  empty or failing store with status 500 and the error text, without a list. A history
  load on a missing file leaves an empty file behind.
\<close>

theorem storage_failure_degrades:
  "load_recent_sessions w NoDirectory st =
     Inr (add_system_message w (emoji_folder @ '' No sessions database found'') st) \<and>
   load_recent_sessions w NoFile st =
     Inr (add_system_message w (emoji_folder @ '' No sessions database found'') st) \<and>
   load_recent_sessions w Empty st =
     Inr (add_system_message w (emoji_warning @ '' DB error: no such table: sessions'') st) \<and>
   load_recent_sessions w (Failing e) st =
     Inr (add_system_message w (emoji_warning @ '' DB error: '' @ e) st) \<and>
   load_session_history w NoDirectory nm st =
     (add_system_message w
        (emoji_warning @ '' Error loading history: unable to open database file'') st,
      NoDirectory) \<and>
   load_session_history w NoFile nm st =
     (add_system_message w
        (emoji_warning @ '' Error loading history: no such table: messages'') st, Empty) \<and>
   load_session_history w Empty nm st =
     (add_system_message w
        (emoji_warning @ '' Error loading history: no such table: messages'') st, Empty) \<and>
   load_session_history w (Failing e) nm st =
     (add_system_message w (emoji_warning @ '' Error loading history: '' @ e) st,
      Failing e) \<and>
   api_sessions NoDirectory = Inr (JObj [(''sessions'', JArr [])], 200) \<and>
   api_sessions NoFile = Inr (JObj [(''sessions'', JArr [])], 200) \<and>
   api_sessions Empty = Inr (JObj [(''error'', JStr ''no such table: sessions'')], 500) \<and>
   api_sessions (Failing e) = Inr (JObj [(''error'', JStr e)], 500) \<and>
   api_session_history NoDirectory nm = Inr (JObj [(''messages'', JArr [])], 200) \<and>
   api_session_history NoFile nm = Inr (JObj [(''messages'', JArr [])], 200) \<and>
   api_session_history Empty nm =
     Inr (JObj [(''error'', JStr ''no such table: messages'')], 500) \<and>
   api_session_history (Failing e) nm = Inr (JObj [(''error'', JStr e)], 500) \<and>
   chat_messages (add_system_message w notice st) =
     chat_messages st @
     [\<lparr>role = ''system'', content = notice, timestamp = clock w (ticks st) hms\<rparr>] \<and>
   session_list (add_system_message w notice st) = session_list st \<and>
   chat_history (add_system_message w notice st) = chat_history st \<and>
   current_session_name (add_system_message w notice st) = current_session_name st \<and>
   (goose w = Some g \<and> duration (g [''goose'', ''--version'']) \<le> 5 \<and>
    (db = NoDirectory \<or> db = NoFile \<or> db = Empty \<or> db = Failing e) \<longrightarrow>
      current_session_name (on_mount w db st) = ''default'' \<and>
      session_list (on_mount w db st) = session_list st \<and>
      spawned (on_mount w db st) =
        spawned st @ [ [''goose'', ''--version''], start_cmd ''default''])"
proof -
  have tui1: "load_recent_sessions w NoDirectory st =
     Inr (add_system_message w (emoji_folder @ '' No sessions database found'') st)"
    "load_recent_sessions w NoFile st =
     Inr (add_system_message w (emoji_folder @ '' No sessions database found'') st)"
    "load_recent_sessions w Empty st =
     Inr (add_system_message w (emoji_warning @ '' DB error: no such table: sessions'') st)"
    "load_recent_sessions w (Failing e) st =
     Inr (add_system_message w (emoji_warning @ '' DB error: '' @ e) st)"
    by (simp_all add: load_recent_sessions_def db_exists_def sqlite_connect_def
        fetch_sessions_def db_error_def)
  have tui2: "load_session_history w NoDirectory nm st =
     (add_system_message w
        (emoji_warning @ '' Error loading history: unable to open database file'') st,
      NoDirectory)"
    "load_session_history w NoFile nm st =
     (add_system_message w
        (emoji_warning @ '' Error loading history: no such table: messages'') st, Empty)"
    "load_session_history w Empty nm st =
     (add_system_message w
        (emoji_warning @ '' Error loading history: no such table: messages'') st, Empty)"
    "load_session_history w (Failing e) nm st =
     (add_system_message w (emoji_warning @ '' Error loading history: '' @ e) st,
      Failing e)"
    by (simp_all add: load_session_history_def sqlite_connect_def fetch_messages_def
        history_error_def)
  have web1: "api_sessions NoDirectory = Inr (JObj [(''sessions'', JArr [])], 200)"
    "api_sessions NoFile = Inr (JObj [(''sessions'', JArr [])], 200)"
    "api_sessions Empty = Inr (JObj [(''error'', JStr ''no such table: sessions'')], 500)"
    "api_sessions (Failing e) = Inr (JObj [(''error'', JStr e)], 500)"
    by (simp_all add: api_sessions_def db_exists_def sqlite_connect_def fetch_sessions_def)
  have web2: "api_session_history NoDirectory nm = Inr (JObj [(''messages'', JArr [])], 200)"
    "api_session_history NoFile nm = Inr (JObj [(''messages'', JArr [])], 200)"
    "api_session_history Empty nm =
       Inr (JObj [(''error'', JStr ''no such table: messages'')], 500)"
    "api_session_history (Failing e) nm = Inr (JObj [(''error'', JStr e)], 500)"
    by (simp_all add: api_session_history_def db_exists_def sqlite_connect_def
        fetch_messages_def)
  have frame: "chat_messages (add_system_message w notice st) =
     chat_messages st @
     [\<lparr>role = ''system'', content = notice, timestamp = clock w (ticks st) hms\<rparr>]"
    "session_list (add_system_message w notice st) = session_list st"
    "chat_history (add_system_message w notice st) = chat_history st"
    "current_session_name (add_system_message w notice st) = current_session_name st"
    by (simp_all add: add_system_message_def)
  have mount: "current_session_name (on_mount w db st) = ''default'' \<and>
      session_list (on_mount w db st) = session_list st \<and>
      spawned (on_mount w db st) =
        spawned st @ [ [''goose'', ''--version''], start_cmd ''default'']"
    if "goose w = Some g" "duration (g [''goose'', ''--version'']) \<le> 5"
      "db = NoDirectory \<or> db = NoFile \<or> db = Empty \<or> db = Failing e"
    using on_mount_failing_store [OF that] by simp
  show ?thesis
    using tui1 tui2 web1 web2 frame mount by blast
qed

theorem storage_failure_degrades_witness:
  "goose demo_world = Some demo_agent \<and>
   duration (demo_agent [''goose'', ''--version'']) \<le> 5 \<and>
   load_recent_sessions demo_world NoFile fresh_tui =
     Inr (add_system_message demo_world (emoji_folder @ '' No sessions database found'')
            fresh_tui) \<and>
   snd (load_session_history demo_world NoFile ''demo'' fresh_tui) = Empty \<and>
   api_sessions (Failing ''file is not a database'') =
     Inr (JObj [(''error'', JStr ''file is not a database'')], 500) \<and>
   current_session_name (on_mount demo_world NoFile fresh_tui) = ''default'' \<and>
   session_list (on_mount demo_world NoFile fresh_tui) = [] \<and>
   spawned (on_mount demo_world NoFile fresh_tui) =
     [ [''goose'', ''--version''], start_cmd ''default'']"
proof -
  have h: "goose demo_world = Some demo_agent"
    "duration (demo_agent [''goose'', ''--version'']) \<le> 5"
    by (simp_all add: demo_world_def demo_agent_def)
  have i: "session_list fresh_tui = []" "spawned fresh_tui = []"
    by (simp_all add: fresh_tui_def)
  from storage_failure_degrades
    [of demo_world fresh_tui "''file is not a database''" "''demo''" _ demo_agent NoFile] h i
  show ?thesis
    by simp
qed

theorem storage_failure_counterexample:
  "api_session_history NoFile ''demo'' = Inr (JObj [(''messages'', JArr [])], 200) \<and>
   map_sum id response_warning (api_session_history NoFile ''demo'') = Inr None \<and>
   api_session_history (Failing ''database disk image is malformed'') ''demo'' =
     Inr (JObj [(''error'', JStr ''database disk image is malformed'')], 500) \<and>
   map_sum id (response_list ''messages'')
     (api_session_history (Failing ''database disk image is malformed'') ''demo'') = Inr None"
  by (simp add: api_session_history_def db_exists_def sqlite_connect_def fetch_messages_def
      response_warning_def response_list_def)

text \<open>
  A store whose directory cannot be searched: the existence test raises outside the
  \<open>try\<close>, so \<open>load_recent_sessions\<close> and the web handlers raise; \<open>on_mount\<close> catches
  the exception, surfaces it and starts no session. \<open>load_session_history\<close> has the
  failure of \<open>sqlite3.connect\<close> inside its \<open>try\<close> and surfaces it.
\<close>

lemma unsearchable_store_raises:
  "load_recent_sessions w Unsearchable st = Inl PermissionError"
  "api_sessions Unsearchable = Inl PermissionError"
  "api_session_history Unsearchable nm = Inl PermissionError"
  "load_session_history w Unsearchable nm st =
     (add_system_message w
        (emoji_warning @ '' Error loading history: unable to open database file'') st,
      Unsearchable)"
  "goose w = Some g \<Longrightarrow> duration (g [''goose'', ''--version'']) \<le> 5 \<Longrightarrow>
     current_session_name (on_mount w Unsearchable st) = current_session_name st \<and>
     spawned (on_mount w Unsearchable st) = spawned st @ [ [''goose'', ''--version''] ] \<and>
     content (last (chat_messages (on_mount w Unsearchable st))) =
       emoji_warning @ '' Error: '' @ str_exc w PermissionError"
  by (simp_all add: load_recent_sessions_def api_sessions_def api_session_history_def
      load_session_history_def db_exists_def sqlite_connect_def history_error_def
      on_mount_def Let_def subprocess_run_def Popen_def record_spawn_def
      add_system_message_def)

section \<open>One invocation of the agent\<close>

lemma read_lines_captured: "read_lines ls acc = acc @ captured_lines ls"
  by (induction ls arbitrary: acc) (simp_all add: captured_lines_def)

lemma stream_lines_captured:
  "stream_lines ls (acc, st) =
     (acc @ captured_lines ls,
      st\<lparr>emitted := emitted st @
            map (\<lambda>l. (Everyone, EvPartialResponse l)) (captured_lines ls)\<rparr>)"
proof (induction ls arbitrary: acc st)
  case Nil
  show ?case by (simp add: captured_lines_def)
next
  case (Cons l ls)
  show ?case
    by (simp add: Cons.IH emit_def) (simp add: captured_lines_def)
qed

lemma join_Cons_not_empty: "x \<noteq> [] \<Longrightarrow> join sep (x # xs) \<noteq> []"
  by (cases xs) simp_all

lemma join_captured_empty: "join sep (captured_lines ls) = [] \<longleftrightarrow> captured_lines ls = []"
proof (cases "captured_lines ls")
  case Nil
  then show ?thesis by simp
next
  case (Cons x xs)
  have "x \<in> set (captured_lines ls)"
    by (simp add: Cons)
  then have "x \<noteq> []"
    by (simp add: captured_lines_def)
  then show ?thesis
    by (simp add: Cons join_Cons_not_empty)
qed

lemma send_to_goose_history:
  assumes "strip m \<noteq> []" and "goose w = Some g"
  shows "chat_history (send_to_goose w m st) =
     chat_history st @
     [\<lparr>role = ''user'', content = m, timestamp = clock w (ticks st) hms\<rparr>,
      \<lparr>role = ''assistant'',
        content = (if captured_lines (stdout_lines (g (tui_cmd st m))) = [] then no_output
                   else join newline (captured_lines (stdout_lines (g (tui_cmd st m))))),
        timestamp = clock w (Suc (Suc (ticks st))) hms\<rparr>]"
  using assms
  by (simp add: send_to_goose_def Let_def Popen_def tui_cmd_def add_user_message_def
      add_system_message_def add_goose_message_def read_lines_captured join_captured_empty)

lemma send_to_goose_view:
  assumes "strip m \<noteq> []" and "goose w = Some g"
  shows "chat_messages (send_to_goose w m st) =
     chat_messages st @
     [\<lparr>role = ''user'', content = m, timestamp = clock w (ticks st) hms\<rparr>,
      \<lparr>role = ''system'', content = emoji_goose @ '' Goose is thinking...'',
        timestamp = clock w (Suc (ticks st)) hms\<rparr>,
      \<lparr>role = ''assistant'',
        content = (if captured_lines (stdout_lines (g (tui_cmd st m))) = [] then no_output
                   else join newline (captured_lines (stdout_lines (g (tui_cmd st m))))),
        timestamp = clock w (Suc (Suc (ticks st))) hms\<rparr>] @
     (if returncode (g (tui_cmd st m)) \<noteq> 0 \<and> stderr_text (g (tui_cmd st m)) \<noteq> []
      then [\<lparr>role = ''system'',
              content = emoji_warning @ '' Error: '' @ stderr_text (g (tui_cmd st m)),
              timestamp = clock w (Suc (Suc (Suc (ticks st)))) hms\<rparr>]
      else [])"
  using assms
  by (simp add: send_to_goose_def Let_def Popen_def tui_cmd_def add_user_message_def
      add_system_message_def add_goose_message_def read_lines_captured join_captured_empty)

lemma send_to_goose_spawned:
  assumes "strip m \<noteq> []" and "goose w = Some g"
  shows "spawned (send_to_goose w m st) = spawned st @ [tui_cmd st m]"
  using assms
  by (simp add: send_to_goose_def Let_def Popen_def tui_cmd_def add_user_message_def
      add_system_message_def add_goose_message_def)

lemma run_goose_emitted:
  assumes "goose w = Some g"
  shows "emitted (run_goose w s m st) =
     emitted st @
     map (\<lambda>l. (Everyone, EvPartialResponse l))
       (captured_lines (stdout_lines (g (resume_cmd s m)))) @
     [(Everyone, EvMessage ''assistant''
         (join newline (captured_lines (stdout_lines (g (resume_cmd s m)))))
         (clock_iso w (web_ticks st)))]"
  using assms
  by (simp add: run_goose_def Let_def Popen_def stream_lines_captured emit_def)

lemma run_goose_spawned:
  assumes "goose w = Some g"
  shows "web_spawned (run_goose w s m st) = web_spawned st @ [resume_cmd s m]"
  using assms
  by (simp add: run_goose_def Let_def Popen_def stream_lines_captured emit_def)

section \<open>The aggregated message\<close>

text \<open>
  C2. At a run that writes only blank lines, the web front-end's \<open>run_goose\<close> sends an
  assistant message whose content is the empty string, where the terminal front-end's
  \<open>send_to_goose\<close> records the "no output" notice for the same run.
\<close>

theorem web_no_output_sends_empty_message:
  "(let w = \<lparr>goose = Some (\<lambda>cmd. \<lparr>stdout_lines = [''\<newline>'', ''  \<newline>''],
                                      stderr_text = [], returncode = 0, duration = 1\<rparr>),
              clock = (\<lambda>k fmt. ''12:00:00''), clock_iso = (\<lambda>k. ''2024-01-01T12:00:00''),
              str_exc = (\<lambda>e. ''error'')\<rparr>;
        ws = \<lparr>config = default_config, config_file = None, emitted = [], threads = [],
               web_spawned = [], web_ticks = 0\<rparr>;
        ts = \<lparr>current_session_name = ''demo'', chat_history = [], chat_messages = [],
               session_list = [], session_status = [], spawned = [], ticks = 0\<rparr>
    in emitted (run_goose w ''demo'' ''hello'' ws) =
         [(Everyone, EvMessage ''assistant'' [] ''2024-01-01T12:00:00'')] \<and>
       chat_history (send_to_goose w ''hello'' ts) =
         [\<lparr>role = ''user'', content = ''hello'', timestamp = ''12:00:00''\<rparr>,
          \<lparr>role = ''assistant'', content = emoji_check @ '' Task completed (no output)'',
            timestamp = ''12:00:00''\<rparr>])"
proof -
  have c: "captured_lines [''\<newline>'', ''  \<newline>''] = []"
    by code_simp
  have s: "strip ''hello'' \<noteq> []"
    by code_simp
  show ?thesis
    by (simp add: Let_def run_goose_emitted send_to_goose_history [OF s] c no_output_def)
qed

text \<open>
  C3. At a run that writes one line and exits with code 1 and text on its standard error,
  both front-ends keep the line as the assistant message; the terminal front-end adds the
  error text as a system notice, the web front-end's \<open>run_goose\<close> emits nothing about it.
\<close>

theorem web_nonzero_exit_drops_error_text:
  "(let w = \<lparr>goose = Some (\<lambda>cmd. \<lparr>stdout_lines = [''partial line\<newline>''],
                                      stderr_text = ''boom'', returncode = 1, duration = 1\<rparr>),
              clock = (\<lambda>k fmt. ''12:00:00''), clock_iso = (\<lambda>k. ''2024-01-01T12:00:00''),
              str_exc = (\<lambda>e. ''error'')\<rparr>;
        ws = \<lparr>config = default_config, config_file = None, emitted = [], threads = [],
               web_spawned = [], web_ticks = 0\<rparr>;
        ts = \<lparr>current_session_name = ''demo'', chat_history = [], chat_messages = [],
               session_list = [], session_status = [], spawned = [], ticks = 0\<rparr>
    in emitted (run_goose w ''demo'' ''hello'' ws) =
         [(Everyone, EvPartialResponse ''partial line''),
          (Everyone, EvMessage ''assistant'' ''partial line'' ''2024-01-01T12:00:00'')] \<and>
       chat_messages (send_to_goose w ''hello'' ts) =
         [\<lparr>role = ''user'', content = ''hello'', timestamp = ''12:00:00''\<rparr>,
          \<lparr>role = ''system'', content = emoji_goose @ '' Goose is thinking...'',
            timestamp = ''12:00:00''\<rparr>,
          \<lparr>role = ''assistant'', content = ''partial line'', timestamp = ''12:00:00''\<rparr>,
          \<lparr>role = ''system'', content = emoji_warning @ '' Error: boom'',
            timestamp = ''12:00:00''\<rparr>] \<and>
       chat_history (send_to_goose w ''hello'' ts) =
         [\<lparr>role = ''user'', content = ''hello'', timestamp = ''12:00:00''\<rparr>,
          \<lparr>role = ''assistant'', content = ''partial line'', timestamp = ''12:00:00''\<rparr>])"
proof -
  have c: "captured_lines [''partial line\<newline>''] = [''partial line'']"
    by code_simp
  have s: "strip ''hello'' \<noteq> []"
    by code_simp
  show ?thesis
    by (simp add: Let_def run_goose_emitted send_to_goose_history [OF s]
        send_to_goose_view [OF s] c)
qed

section \<open>Timeouts\<close>

lemma start_new_session_view:
  "map (\<lambda>b. (role b, content b)) (chat_messages (start_new_session w a st)) =
     map (\<lambda>b. (role b, content b)) (chat_messages st) @
     [(''system'', emoji_new @ '' Started new session: '' @ tui_session_name w st a),
      (''system'',
       case subprocess_run w (start_cmd (tui_session_name w st a)) 10 of
         Inr p \<Rightarrow> emoji_check @ '' Goose session '' @ quote @ tui_session_name w st a @ quote @
                  '' initialized''
       | Inl e \<Rightarrow> emoji_warning @ '' Session init error: '' @ str_exc w e)]"
  by (cases a)
    (auto simp: start_new_session_def tui_session_name_def generated_name_def Let_def
      add_system_message_def split: sum.splits)

lemma start_new_session_history: "chat_history (start_new_session w a st) = []"
  by (simp add: start_new_session_def Let_def add_system_message_def split: sum.splits)

lemma handle_new_session_emitted:
  "emitted (handle_new_session w data ws) =
     emitted ws @
     [(Sender,
       case subprocess_run w (start_cmd (web_session_name w ws data)) 10 of
         Inr p \<Rightarrow> EvSessionCreated (web_session_name w ws data) ''success''
       | Inl e \<Rightarrow> EvError (''Failed to create session: '' @ str_exc w e))]"
  by (simp add: handle_new_session_def web_session_name_def generated_name_def Let_def
      emit_def split: sum.splits)

lemma subprocess_run_timeout:
  "goose w = Some g \<Longrightarrow>
   subprocess_run w cmd t =
     (if t < duration (g cmd) then Inl (TimeoutExpired cmd t) else Inr (g cmd))"
  by (simp add: subprocess_run_def Popen_def)

lemma lasting_fields:
  "clock (lasting d w) = clock w"
  "clock_iso (lasting d w) = clock_iso w"
  "str_exc (lasting d w) = str_exc w"
  by (simp_all add: lasting_def)

lemma Popen_lasting:
  "Popen (lasting d w) cmd =
     (case Popen w cmd of Inl e \<Rightarrow> Inl e | Inr p \<Rightarrow> Inr (p\<lparr>duration := d\<rparr>))"
  by (cases "goose w") (simp_all add: Popen_def lasting_def)

lemma add_message_lasting:
  "add_system_message (lasting d w) = add_system_message w"
  "add_user_message (lasting d w) = add_user_message w"
  "add_goose_message (lasting d w) = add_goose_message w"
  by (simp_all add: fun_eq_iff add_system_message_def add_user_message_def
      add_goose_message_def lasting_fields)

lemma send_to_goose_except_lasting:
  "send_to_goose_except (lasting d w) e st = send_to_goose_except w e st"
  by (cases e) (simp_all add: add_message_lasting lasting_fields)

lemma send_to_goose_lasting: "send_to_goose (lasting d w) m st = send_to_goose w m st"
proof (cases "Popen w (tui_cmd (add_system_message w (emoji_goose @ '' Goose is thinking...'')
    (add_user_message w m st)) m)")
  case (Inl e)
  then show ?thesis
    unfolding send_to_goose_def Let_def tui_cmd_def [symmetric] add_message_lasting Popen_lasting
    by (simp add: send_to_goose_except_lasting)
next
  case (Inr p)
  then show ?thesis
    unfolding send_to_goose_def Let_def tui_cmd_def [symmetric] add_message_lasting Popen_lasting
    by simp
qed

lemma run_goose_lasting: "run_goose (lasting d w) s m ws = run_goose w s m ws"
proof (cases "Popen w (resume_cmd s m)")
  case (Inl e)
  then show ?thesis
    unfolding run_goose_def Let_def Popen_lasting lasting_fields by simp
next
  case (Inr p)
  then show ?thesis
    unfolding run_goose_def Let_def Popen_lasting lasting_fields by simp
qed

text \<open>
  C5. Every start-mode invocation (\<open>start_new_session\<close>, \<open>handle_new_session\<close>) runs the
  agent under a timeout of 10 seconds: a run that lasts longer raises \<open>TimeoutExpired\<close>,
  which is surfaced as a system notice (terminal) or an \<open>error\<close> event (web) and leaves
  no transcript entry: the chat history is empty and no \<open>message\<close> event is emitted. A
  resume-mode invocation (\<open>send_to_goose\<close>, \<open>run_goose\<close>) has no timeout: whatever the
  duration \<open>d\<close> of the run, its outcome is the same, and the reply is recorded.
\<close>

theorem start_bounded_resume_unbounded:
  assumes "goose w = Some g"
  shows
  "(10 < duration (g (start_cmd (tui_session_name w st a))) \<longrightarrow>
      chat_history (start_new_session w a st) = [] \<and>
      map (\<lambda>b. (role b, content b)) (chat_messages (start_new_session w a st)) =
        map (\<lambda>b. (role b, content b)) (chat_messages st) @
        [(''system'', emoji_new @ '' Started new session: '' @ tui_session_name w st a),
         (''system'', emoji_warning @ '' Session init error: '' @
            str_exc w (TimeoutExpired (start_cmd (tui_session_name w st a)) 10))]) \<and>
   (10 < duration (g (start_cmd (web_session_name w ws data))) \<longrightarrow>
      emitted (handle_new_session w data ws) =
        emitted ws @
        [(Sender, EvError (''Failed to create session: '' @
            str_exc w (TimeoutExpired (start_cmd (web_session_name w ws data)) 10)))]) \<and>
   send_to_goose (lasting d w) m st = send_to_goose w m st \<and>
   run_goose (lasting d w) s m ws = run_goose w s m ws \<and>
   (strip m \<noteq> [] \<longrightarrow>
      chat_history (send_to_goose (lasting d w) m st) =
        chat_history st @
        [\<lparr>role = ''user'', content = m, timestamp = clock w (ticks st) hms\<rparr>,
         \<lparr>role = ''assistant'',
           content = (if captured_lines (stdout_lines (g (tui_cmd st m))) = [] then no_output
                      else join newline (captured_lines (stdout_lines (g (tui_cmd st m))))),
           timestamp = clock w (Suc (Suc (ticks st))) hms\<rparr>]) \<and>
   emitted (run_goose (lasting d w) s m ws) =
     emitted ws @
     map (\<lambda>l. (Everyone, EvPartialResponse l))
       (captured_lines (stdout_lines (g (resume_cmd s m)))) @
     [(Everyone, EvMessage ''assistant''
         (join newline (captured_lines (stdout_lines (g (resume_cmd s m)))))
         (clock_iso w (web_ticks ws)))]"
proof -
  have tui: "chat_history (start_new_session w a st) = [] \<and>
      map (\<lambda>b. (role b, content b)) (chat_messages (start_new_session w a st)) =
        map (\<lambda>b. (role b, content b)) (chat_messages st) @
        [(''system'', emoji_new @ '' Started new session: '' @ tui_session_name w st a),
         (''system'', emoji_warning @ '' Session init error: '' @
            str_exc w (TimeoutExpired (start_cmd (tui_session_name w st a)) 10))]"
    if "10 < duration (g (start_cmd (tui_session_name w st a)))"
    using that
    by (simp add: start_new_session_history start_new_session_view
        subprocess_run_timeout [OF assms])
  have web: "emitted (handle_new_session w data ws) =
        emitted ws @
        [(Sender, EvError (''Failed to create session: '' @
            str_exc w (TimeoutExpired (start_cmd (web_session_name w ws data)) 10)))]"
    if "10 < duration (g (start_cmd (web_session_name w ws data)))"
    using that
    by (simp add: handle_new_session_emitted subprocess_run_timeout [OF assms])
  have hist: "chat_history (send_to_goose (lasting d w) m st) =
        chat_history st @
        [\<lparr>role = ''user'', content = m, timestamp = clock w (ticks st) hms\<rparr>,
         \<lparr>role = ''assistant'',
           content = (if captured_lines (stdout_lines (g (tui_cmd st m))) = [] then no_output
                      else join newline (captured_lines (stdout_lines (g (tui_cmd st m))))),
           timestamp = clock w (Suc (Suc (ticks st))) hms\<rparr>]"
    if "strip m \<noteq> []"
    using that by (simp add: send_to_goose_lasting send_to_goose_history [OF _ assms])
  have ev: "emitted (run_goose (lasting d w) s m ws) =
     emitted ws @
     map (\<lambda>l. (Everyone, EvPartialResponse l))
       (captured_lines (stdout_lines (g (resume_cmd s m)))) @
     [(Everyone, EvMessage ''assistant''
         (join newline (captured_lines (stdout_lines (g (resume_cmd s m)))))
         (clock_iso w (web_ticks ws)))]"
    by (simp add: run_goose_lasting run_goose_emitted [OF assms])
  show ?thesis
    using tui web hist ev send_to_goose_lasting [of d w m st] run_goose_lasting [of d w s m ws]
    by blast
qed

theorem start_bounded_resume_unbounded_witness:
  "(let g = (\<lambda>cmd. \<lparr>stdout_lines = [''done\<newline>''], stderr_text = [],
                     returncode = 0, duration = 11\<rparr>);
        w = \<lparr>goose = Some g,
              clock = (\<lambda>k fmt. ''12:00:00''), clock_iso = (\<lambda>k. ''2024-01-01T12:00:00''),
              str_exc = (\<lambda>e. case e of FileNotFoundError \<Rightarrow> ''not found''
                               | TimeoutExpired c t \<Rightarrow> ''timed out''
                               | PermissionError \<Rightarrow> ''permission denied'')\<rparr>;
        ws = \<lparr>config = default_config, config_file = None, emitted = [], threads = [],
               web_spawned = [], web_ticks = 0\<rparr>;
        ts = \<lparr>current_session_name = ''demo'', chat_history = [], chat_messages = [],
               session_list = [], session_status = [], spawned = [], ticks = 0\<rparr>
    in goose w = Some g \<and>
       10 < duration (g (start_cmd (tui_session_name w ts (Some ''demo'')))) \<and>
       chat_history (start_new_session w (Some ''demo'') ts) = [] \<and>
       map (\<lambda>b. (role b, content b)) (chat_messages (start_new_session w (Some ''demo'') ts)) =
         [(''system'', emoji_new @ '' Started new session: demo''),
          (''system'', emoji_warning @ '' Session init error: timed out'')] \<and>
       10 < duration (g (start_cmd (web_session_name w ws [(''name'', ''demo'')]))) \<and>
       emitted (handle_new_session w [(''name'', ''demo'')] ws) =
         [(Sender, EvError ''Failed to create session: timed out'')] \<and>
       strip ''hello'' \<noteq> [] \<and>
       chat_history (send_to_goose (lasting 1000000 w) ''hello'' ts) =
         [\<lparr>role = ''user'', content = ''hello'', timestamp = ''12:00:00''\<rparr>,
          \<lparr>role = ''assistant'', content = ''done'', timestamp = ''12:00:00''\<rparr>] \<and>
       emitted (run_goose (lasting 1000000 w) ''demo'' ''hello'' ws) =
         [(Everyone, EvPartialResponse ''done''),
          (Everyone, EvMessage ''assistant'' ''done'' ''2024-01-01T12:00:00'')])"
proof -
  define g where "g = (\<lambda>cmd::string list. \<lparr>stdout_lines = [''done\<newline>''], stderr_text = [],
                     returncode = 0, duration = 11\<rparr>)"
  define w where "w = \<lparr>goose = Some g,
              clock = (\<lambda>k fmt. ''12:00:00''), clock_iso = (\<lambda>k. ''2024-01-01T12:00:00''),
              str_exc = (\<lambda>e. case e of FileNotFoundError \<Rightarrow> ''not found''
                               | TimeoutExpired c t \<Rightarrow> ''timed out''
                               | PermissionError \<Rightarrow> ''permission denied'')\<rparr>"
  define ws where "ws = \<lparr>config = default_config, config_file = None, emitted = [],
    threads = [], web_spawned = [], web_ticks = 0\<rparr>"
  define ts where "ts = \<lparr>current_session_name = ''demo'', chat_history = [],
    chat_messages = [], session_list = [], session_status = [], spawned = [], ticks = 0\<rparr>"
  have gw: "goose w = Some g"
    by (simp add: w_def)
  have c: "captured_lines [''done\<newline>''] = [''done'']"
    by code_simp
  have s: "strip ''hello'' \<noteq> []"
    by code_simp
  have n1: "tui_session_name w ts (Some ''demo'') = ''demo''"
    by (simp add: tui_session_name_def)
  have n2: "web_session_name w ws [(''name'', ''demo'')] = ''demo''"
    by (simp add: web_session_name_def dict_get_def)
  have d: "\<And>cmd. (10::real) < duration (g cmd)" "\<And>cmd. stdout_lines (g cmd) = [''done\<newline>'']"
    by (simp_all add: g_def)
  have e: "str_exc w (TimeoutExpired (start_cmd ''demo'') 10) = ''timed out''"
    "clock w = (\<lambda>k fmt. ''12:00:00'')" "clock_iso w = (\<lambda>k. ''2024-01-01T12:00:00'')"
    by (simp_all add: w_def)
  have i: "chat_history ts = []" "chat_messages ts = []" "emitted ws = []" "ticks ts = 0"
    "web_ticks ws = 0"
    by (simp_all add: ts_def ws_def)
  from start_bounded_resume_unbounded [OF gw, of ts "Some ''demo''" ws "[(''name'', ''demo'')]"
      1000000 "''hello''" "''demo''"]
  have "chat_history (start_new_session w (Some ''demo'') ts) = []"
    and "map (\<lambda>b. (role b, content b)) (chat_messages (start_new_session w (Some ''demo'') ts)) =
         [(''system'', emoji_new @ '' Started new session: demo''),
          (''system'', emoji_warning @ '' Session init error: timed out'')]"
    and "emitted (handle_new_session w [(''name'', ''demo'')] ws) =
         [(Sender, EvError ''Failed to create session: timed out'')]"
    and "chat_history (send_to_goose (lasting 1000000 w) ''hello'' ts) =
         [\<lparr>role = ''user'', content = ''hello'', timestamp = ''12:00:00''\<rparr>,
          \<lparr>role = ''assistant'', content = ''done'', timestamp = ''12:00:00''\<rparr>]"
    and "emitted (run_goose (lasting 1000000 w) ''demo'' ''hello'' ws) =
         [(Everyone, EvPartialResponse ''done''),
          (Everyone, EvMessage ''assistant'' ''done'' ''2024-01-01T12:00:00'')]"
    by (auto simp add: n1 n2 d e i c s)
  then show ?thesis
    unfolding g_def [symmetric] w_def [symmetric] ws_def [symmetric] ts_def [symmetric] Let_def
    using gw s d by (simp add: n1 n2)
qed

section \<open>A missing agent binary\<close>

text \<open>
  C6. When the \<open>goose\<close> binary is not found, every invocation fails with
  \<open>FileNotFoundError\<close> and no child process is created; the failure is surfaced to the user
  (a system notice in the terminal front-end, an \<open>error\<close> event in the web front-end); no
  assistant message is recorded or emitted: the terminal chat history holds the user's own
  prompt and nothing from the agent, and the worker emits the error alone. The sessions
  database is not among the things these handlers can change.
\<close>

theorem missing_agent_no_message:
  assumes "goose w = None"
  shows
  "spawned (on_mount w db st) = spawned st \<and>
   chat_history (on_mount w db st) = chat_history st \<and>
   session_list (on_mount w db st) = session_list st \<and>
   chat_messages (on_mount w db st) =
     chat_messages st @
     [\<lparr>role = ''system'', content = ''Initializing Goose CLI...'',
       timestamp = clock w (ticks st) hms\<rparr>,
      \<lparr>role = ''system'',
       content = emoji_cross @ '' Goose CLI not found!'' @ newline @
                 ''Install: pip install goose-ai'' @ newline @ ''Or: pipx install goose-ai'',
       timestamp = clock w (Suc (ticks st)) hms\<rparr>] \<and>
   (strip m \<noteq> [] \<longrightarrow>
      spawned (send_to_goose w m st) = spawned st \<and>
      chat_history (send_to_goose w m st) =
        chat_history st @
        [\<lparr>role = ''user'', content = m, timestamp = clock w (ticks st) hms\<rparr>] \<and>
      chat_messages (send_to_goose w m st) =
        chat_messages st @
        [\<lparr>role = ''user'', content = m, timestamp = clock w (ticks st) hms\<rparr>,
         \<lparr>role = ''system'', content = emoji_goose @ '' Goose is thinking...'',
           timestamp = clock w (Suc (ticks st)) hms\<rparr>,
         \<lparr>role = ''system'', content = emoji_cross @ '' Error: '' @ str_exc w FileNotFoundError,
           timestamp = clock w (Suc (Suc (ticks st))) hms\<rparr>]) \<and>
   web_spawned (run_goose w s m ws) = web_spawned ws \<and>
   emitted (run_goose w s m ws) =
     emitted ws @ [(Everyone, EvError (str_exc w FileNotFoundError))] \<and>
   spawned (start_new_session w a st) = spawned st \<and>
   chat_history (start_new_session w a st) = [] \<and>
   map (\<lambda>b. (role b, content b)) (chat_messages (start_new_session w a st)) =
     map (\<lambda>b. (role b, content b)) (chat_messages st) @
     [(''system'', emoji_new @ '' Started new session: '' @ tui_session_name w st a),
      (''system'', emoji_warning @ '' Session init error: '' @ str_exc w FileNotFoundError)] \<and>
   web_spawned (handle_new_session w data ws) = web_spawned ws \<and>
   emitted (handle_new_session w data ws) =
     emitted ws @
     [(Sender, EvError (''Failed to create session: '' @ str_exc w FileNotFoundError))]"
proof -
  have run: "subprocess_run w cmd t = Inl FileNotFoundError" for cmd t
    using assms by (simp add: subprocess_run_def Popen_def)
  have rec: "record_spawn w cmd cmds = cmds" for cmd cmds
    using assms by (simp add: record_spawn_def Popen_def)
  have mount: "on_mount w db st =
      add_system_message w
        (emoji_cross @ '' Goose CLI not found!'' @ newline @
         ''Install: pip install goose-ai'' @ newline @ ''Or: pipx install goose-ai'')
        (add_system_message w ''Initializing Goose CLI...'' st)"
    by (simp add: on_mount_def Let_def run rec)
  have m1: "spawned (on_mount w db st) = spawned st"
    and m2: "chat_history (on_mount w db st) = chat_history st"
    and m3: "session_list (on_mount w db st) = session_list st"
    and m4: "chat_messages (on_mount w db st) =
     chat_messages st @
     [\<lparr>role = ''system'', content = ''Initializing Goose CLI...'',
       timestamp = clock w (ticks st) hms\<rparr>,
      \<lparr>role = ''system'',
       content = emoji_cross @ '' Goose CLI not found!'' @ newline @
                 ''Install: pip install goose-ai'' @ newline @ ''Or: pipx install goose-ai'',
       timestamp = clock w (Suc (ticks st)) hms\<rparr>]"
    by (simp_all add: mount add_system_message_def)
  have send: "spawned (send_to_goose w m st) = spawned st \<and>
      chat_history (send_to_goose w m st) =
        chat_history st @
        [\<lparr>role = ''user'', content = m, timestamp = clock w (ticks st) hms\<rparr>] \<and>
      chat_messages (send_to_goose w m st) =
        chat_messages st @
        [\<lparr>role = ''user'', content = m, timestamp = clock w (ticks st) hms\<rparr>,
         \<lparr>role = ''system'', content = emoji_goose @ '' Goose is thinking...'',
           timestamp = clock w (Suc (ticks st)) hms\<rparr>,
         \<lparr>role = ''system'', content = emoji_cross @ '' Error: '' @ str_exc w FileNotFoundError,
           timestamp = clock w (Suc (Suc (ticks st))) hms\<rparr>]"
    if "strip m \<noteq> []"
    using that assms
    by (simp add: send_to_goose_def Let_def Popen_def add_user_message_def
        add_system_message_def)
  have web: "run_goose w s m ws = emit Everyone (EvError (str_exc w FileNotFoundError)) ws"
    using assms by (simp add: run_goose_def Let_def Popen_def)
  have w1: "web_spawned (run_goose w s m ws) = web_spawned ws"
    and w2: "emitted (run_goose w s m ws) =
       emitted ws @ [(Everyone, EvError (str_exc w FileNotFoundError))]"
    by (simp_all add: web emit_def)
  have s1: "spawned (start_new_session w a st) = spawned st"
    by (simp add: start_new_session_def Let_def run rec add_system_message_def)
  have s2: "map (\<lambda>b. (role b, content b)) (chat_messages (start_new_session w a st)) =
     map (\<lambda>b. (role b, content b)) (chat_messages st) @
     [(''system'', emoji_new @ '' Started new session: '' @ tui_session_name w st a),
      (''system'', emoji_warning @ '' Session init error: '' @ str_exc w FileNotFoundError)]"
    by (simp add: start_new_session_view run)
  have n1: "web_spawned (handle_new_session w data ws) = web_spawned ws"
    by (simp add: handle_new_session_def Let_def run rec emit_def)
  have n2: "emitted (handle_new_session w data ws) =
     emitted ws @
     [(Sender, EvError (''Failed to create session: '' @ str_exc w FileNotFoundError))]"
    by (simp add: handle_new_session_emitted run)
  show ?thesis
    using m1 m2 m3 m4 send w1 w2 s1 s2 n1 n2 start_new_session_history [of w a st]
    by blast
qed

theorem missing_agent_no_message_witness:
  "(let w = \<lparr>goose = None,
              clock = (\<lambda>k fmt. ''12:00:00''), clock_iso = (\<lambda>k. ''2024-01-01T12:00:00''),
              str_exc = (\<lambda>e. case e of FileNotFoundError \<Rightarrow> ''not found''
                               | TimeoutExpired c t \<Rightarrow> ''timed out''
                               | PermissionError \<Rightarrow> ''permission denied'')\<rparr>;
        ws = \<lparr>config = default_config, config_file = None, emitted = [], threads = [],
               web_spawned = [], web_ticks = 0\<rparr>;
        ts = \<lparr>current_session_name = ''demo'', chat_history = [], chat_messages = [],
               session_list = [], session_status = [], spawned = [], ticks = 0\<rparr>
    in goose w = None \<and>
       strip ''hello'' \<noteq> [] \<and>
       spawned (on_mount w NoFile ts) = [] \<and>
       chat_history (on_mount w NoFile ts) = [] \<and>
       spawned (send_to_goose w ''hello'' ts) = [] \<and>
       chat_history (send_to_goose w ''hello'' ts) =
         [\<lparr>role = ''user'', content = ''hello'', timestamp = ''12:00:00''\<rparr>] \<and>
       chat_messages (send_to_goose w ''hello'' ts) =
         [\<lparr>role = ''user'', content = ''hello'', timestamp = ''12:00:00''\<rparr>,
          \<lparr>role = ''system'', content = emoji_goose @ '' Goose is thinking...'',
            timestamp = ''12:00:00''\<rparr>,
          \<lparr>role = ''system'', content = emoji_cross @ '' Error: not found'',
            timestamp = ''12:00:00''\<rparr>] \<and>
       web_spawned (run_goose w ''demo'' ''hello'' ws) = [] \<and>
       emitted (run_goose w ''demo'' ''hello'' ws) = [(Everyone, EvError ''not found'')])"
proof -
  define w where "w = \<lparr>goose = None,
              clock = (\<lambda>k fmt. ''12:00:00''), clock_iso = (\<lambda>k. ''2024-01-01T12:00:00''),
              str_exc = (\<lambda>e. case e of FileNotFoundError \<Rightarrow> ''not found''
                               | TimeoutExpired c t \<Rightarrow> ''timed out''
                               | PermissionError \<Rightarrow> ''permission denied'')\<rparr>"
  define ws where "ws = \<lparr>config = default_config, config_file = None, emitted = [],
    threads = [], web_spawned = [], web_ticks = 0\<rparr>"
  define ts where "ts = \<lparr>current_session_name = ''demo'', chat_history = [],
    chat_messages = [], session_list = [], session_status = [], spawned = [], ticks = 0\<rparr>"
  have gw: "goose w = None"
    by (simp add: w_def)
  have s: "strip ''hello'' \<noteq> []"
    by code_simp
  have e: "str_exc w FileNotFoundError = ''not found''"
    "clock w = (\<lambda>k fmt. ''12:00:00'')"
    by (simp_all add: w_def)
  have i: "chat_history ts = []" "chat_messages ts = []" "spawned ts = []" "emitted ws = []"
    "web_spawned ws = []"
    by (simp_all add: ts_def ws_def)
  from missing_agent_no_message [OF gw, of NoFile ts "''hello''" "''demo''" ws]
  have "spawned (on_mount w NoFile ts) = []"
    and "chat_history (on_mount w NoFile ts) = []"
    and "spawned (send_to_goose w ''hello'' ts) = []"
    and "chat_history (send_to_goose w ''hello'' ts) =
         [\<lparr>role = ''user'', content = ''hello'', timestamp = ''12:00:00''\<rparr>]"
    and "chat_messages (send_to_goose w ''hello'' ts) =
         [\<lparr>role = ''user'', content = ''hello'', timestamp = ''12:00:00''\<rparr>,
          \<lparr>role = ''system'', content = emoji_goose @ '' Goose is thinking...'',
            timestamp = ''12:00:00''\<rparr>,
          \<lparr>role = ''system'', content = emoji_cross @ '' Error: not found'',
            timestamp = ''12:00:00''\<rparr>]"
    and "web_spawned (run_goose w ''demo'' ''hello'' ws) = []"
    and "emitted (run_goose w ''demo'' ''hello'' ws) = [(Everyone, EvError ''not found'')]"
    by (auto simp add: e i s)
  then show ?thesis
    unfolding w_def [symmetric] ws_def [symmetric] ts_def [symmetric] Let_def
    using gw s by simp
qed

section \<open>Concurrent invocations in the web front-end\<close>

lemma assistant_contents_append:
  "assistant_contents (xs @ ys) = assistant_contents xs @ assistant_contents ys"
  by (induction xs rule: assistant_contents.induct) simp_all

lemma partial_responses_append:
  "partial_responses (xs @ ys) = partial_responses xs @ partial_responses ys"
  by (induction xs rule: partial_responses.induct) simp_all

lemma aggregate_of_phase [simp]: "aggregate_of g (t\<lparr>phase := ph\<rparr>) = aggregate_of g t"
  by (simp add: aggregate_of_def)

lemma ended_update:
  assumes "i < length ts" and "phase (ts ! i) \<noteq> Ended"
  shows "image_mset (aggregate_of g) (filter_mset (\<lambda>t. phase t = Ended) (mset (ts[i := t']))) =
     (if phase t' = Ended
      then add_mset (aggregate_of g t')
             (image_mset (aggregate_of g) (filter_mset (\<lambda>t. phase t = Ended) (mset ts)))
      else image_mset (aggregate_of g) (filter_mset (\<lambda>t. phase t = Ended) (mset ts)))"
  using assms by (simp add: mset_update filter_diff_mset)

lemma own_lines_update:
  assumes "list_all (own_lines g) ts" and "own_lines g t"
  shows "list_all (own_lines g) (ts[i := t])"
  using assms by (auto simp: list_all_iff dest: set_update_subset_insert [THEN subsetD])

lemma web_inv_handle_message:
  assumes "web_inv g st"
  shows "web_inv g (handle_message w data st)"
  using assms
  by (simp add: web_inv_def handle_message_def Let_def emit_def assistant_contents_append
      own_lines_def)

lemma web_inv_worker_step:
  assumes g: "goose w = Some g" and inv: "web_inv g st"
  shows "web_inv g (worker_step w i st)"
proof (cases "length (threads st) \<le> i")
  case True
  then show ?thesis using inv by (simp add: worker_step_def)
next
  case False
  then have i: "i < length (threads st)" by simp
  define t where "t = threads st ! i"
  have own: "own_lines g t"
    using inv i by (simp add: web_inv_def list_all_length t_def)
  note upd = ended_update [OF i, folded t_def]
  have all: "list_all (own_lines g) (threads st)"
    and ms: "mset (assistant_contents (emitted st)) =
       mset (map (aggregate_of g) (filter (\<lambda>t. phase t = Ended) (threads st)))"
    using inv by (simp_all add: web_inv_def)
  show ?thesis
  proof (cases "phase t")
    case Created
    have "own_lines g (t\<lparr>phase := Streaming (g (resume_cmd (w_session t) (w_message t)))
        (stdout_lines (g (resume_cmd (w_session t) (w_message t)))) []\<rparr>)"
      by (simp add: own_lines_def)
    then show ?thesis
      using Created i g all ms
      by (simp add: worker_step_def t_def [symmetric] Let_def Popen_def set_phase_def
          web_inv_def own_lines_update upd)
  next
    case (Streaming p pending rl)
    have eq: "rl @ captured_lines pending =
        captured_lines (stdout_lines (g (resume_cmd (w_session t) (w_message t))))"
      using own Streaming by (simp add: own_lines_def)
    show ?thesis
    proof (cases pending)
      case Nil
      have "join newline rl = aggregate_of g t"
        using eq Nil by (simp add: aggregate_of_def captured_lines_def)
      moreover have "own_lines g (t\<lparr>phase := Ended\<rparr>)"
        by (simp add: own_lines_def)
      ultimately show ?thesis
        using Streaming Nil i all ms
        by (simp add: worker_step_def t_def [symmetric] Let_def set_phase_def emit_def
            web_inv_def own_lines_update upd assistant_contents_append)
    next
      case (Cons line rest)
      show ?thesis
      proof (cases "strip line = []")
        case True
        have "own_lines g (t\<lparr>phase := Streaming p rest rl\<rparr>)"
          using eq Cons True by (simp add: own_lines_def captured_lines_def)
        then show ?thesis
          using Streaming Cons True i all ms
          by (simp add: worker_step_def t_def [symmetric] Let_def set_phase_def
              web_inv_def own_lines_update upd)
      next
        case False
        have "own_lines g (t\<lparr>phase := Streaming p rest (rl @ [strip line])\<rparr>)"
          using eq Cons False by (simp add: own_lines_def captured_lines_def)
        then show ?thesis
          using Streaming Cons False i all ms
          by (simp add: worker_step_def t_def [symmetric] Let_def set_phase_def emit_def
              web_inv_def own_lines_update upd assistant_contents_append)
      qed
    qed
  next
    case Ended
    then show ?thesis
      using i inv by (simp add: worker_step_def t_def [symmetric] Let_def)
  qed
qed

lemma web_inv_run_web:
  assumes "goose w = Some g" and "web_inv g st"
  shows "web_inv g (run_web w acts st)"
  using assms(2)
proof (induction acts arbitrary: st)
  case Nil
  then show ?case by (simp add: run_web_def)
next
  case (Cons a acts)
  have "web_inv g (perform w a st)"
    using Cons.prems assms(1)
    by (cases a) (simp_all add: web_inv_handle_message web_inv_worker_step)
  then have "web_inv g (run_web w acts (perform w a st))"
    by (rule Cons.IH)
  then show ?case by (simp add: run_web_def)
qed

lemma worker_step_requests:
  "map (\<lambda>t. (w_session t, w_message t)) (threads (worker_step w i st)) =
   map (\<lambda>t. (w_session t, w_message t)) (threads st)"
proof (cases "length (threads st) \<le> i")
  case True
  then show ?thesis by (simp add: worker_step_def)
next
  case False
  have "map (\<lambda>t. (w_session t, w_message t)) (threads (set_phase i ph st')) =
        map (\<lambda>t. (w_session t, w_message t)) (threads st')" for ph st'
  proof -
    have "(map f xs)[i := f (xs ! i)] = map f xs" for f :: "worker \<Rightarrow> string \<times> string" and xs
      by (metis list_update_id map_update)
    from this [of "\<lambda>t. (w_session t, w_message t)" "threads st'"] show ?thesis
      by (simp add: set_phase_def map_update)
  qed
  then show ?thesis
    using False
    by (simp add: worker_step_def Let_def emit_def
        split: phase.splits sum.splits list.splits)
qed

lemma run_web_requests:
  "map (\<lambda>t. (w_session t, w_message t)) (threads (run_web w acts st)) =
   map (\<lambda>t. (w_session t, w_message t)) (threads st) @ accepted_requests acts"
proof (induction acts arbitrary: st)
  case Nil
  show ?case by (simp add: run_web_def)
next
  case (Cons a acts)
  have "map (\<lambda>t. (w_session t, w_message t)) (threads (perform w a st)) =
        map (\<lambda>t. (w_session t, w_message t)) (threads st) @ accepted_requests [a]"
    by (cases a) (simp_all add: worker_step_requests handle_message_def Let_def emit_def)
  moreover have "accepted_requests (a # acts) = accepted_requests [a] @ accepted_requests acts"
    by (cases a) simp_all
  ultimately show ?case
    using Cons.IH [of "perform w a st"] by (simp add: run_web_def)
qed

text \<open>
  C4. The web front-end starts a worker thread for every request that carries a message,
  at once: a request for a session with an invocation under way is neither held back nor
  rejected, so several invocations of one session can be active together and their
  partial responses can interleave. Whatever the interleaving, each worker's buffer holds
  lines of its own run only, and the assistant messages emitted are, one for one, the
  aggregated messages of the workers that have ended: each the newline-joined captured
  lines of exactly one subprocess run. The terminal front-end runs an invocation to its
  end inside \<open>send_to_goose\<close> and records the aggregated message of that one run.
\<close>

theorem aggregated_message_single_run:
  assumes "goose w = Some g" and "threads st = []" and "assistant_contents (emitted st) = []"
  shows
  "map (\<lambda>t. (w_session t, w_message t)) (threads (run_web w acts st)) =
     accepted_requests acts \<and>
   list_all (own_lines g) (threads (run_web w acts st)) \<and>
   mset (assistant_contents (emitted (run_web w acts st))) =
     mset (map (aggregate_of g)
       (filter (\<lambda>t. phase t = Ended) (threads (run_web w acts st)))) \<and>
   (strip m \<noteq> [] \<longrightarrow>
      chat_history (send_to_goose w m ts) =
        chat_history ts @
        [\<lparr>role = ''user'', content = m, timestamp = clock w (ticks ts) hms\<rparr>,
         \<lparr>role = ''assistant'',
           content = (if captured_lines (stdout_lines (g (tui_cmd ts m))) = [] then no_output
                      else join newline (captured_lines (stdout_lines (g (tui_cmd ts m))))),
           timestamp = clock w (Suc (Suc (ticks ts))) hms\<rparr>])"
proof -
  have "web_inv g st"
    using assms(2,3) by (simp add: web_inv_def)
  then have "web_inv g (run_web w acts st)"
    by (rule web_inv_run_web [OF assms(1)])
  moreover have "map (\<lambda>t. (w_session t, w_message t)) (threads (run_web w acts st)) =
     accepted_requests acts"
    using run_web_requests [of w acts st] assms(2) by simp
  ultimately show ?thesis
    using send_to_goose_history [OF _ assms(1), of m ts]
    by (simp add: web_inv_def)
qed

theorem aggregated_message_single_run_witness:
  "goose demo_world = Some demo_agent \<and>
   threads fresh_web = [] \<and>
   assistant_contents (emitted fresh_web) = [] \<and>
   map (\<lambda>t. (w_session t, w_message t)) (threads (run_web demo_world taking_turns fresh_web)) =
     [(''demo'', ''one''), (''demo'', ''two'')] \<and>
   map phase (threads (run_web demo_world taking_turns fresh_web)) = [Ended, Ended] \<and>
   partial_responses (emitted (run_web demo_world taking_turns fresh_web)) =
     [''a1'', ''b1'', ''a2'', ''b2''] \<and>
   mset (assistant_contents (emitted (run_web demo_world taking_turns fresh_web))) =
     {#''a1\<newline>a2'', ''b1\<newline>b2''#}"
proof -
  have h: "goose demo_world = Some demo_agent" "threads fresh_web = []"
    "assistant_contents (emitted fresh_web) = []"
    by (simp_all add: demo_world_def fresh_web_def)
  have a: "accepted_requests taking_turns = [(''demo'', ''one''), (''demo'', ''two'')]"
    by code_simp
  have p: "map phase (threads (run_web demo_world taking_turns fresh_web)) = [Ended, Ended]"
    by code_simp
  have r: "partial_responses (emitted (run_web demo_world taking_turns fresh_web)) =
     [''a1'', ''b1'', ''a2'', ''b2'']"
    by code_simp
  have e: "map (aggregate_of demo_agent)
       (filter (\<lambda>t. phase t = Ended) (threads (run_web demo_world taking_turns fresh_web))) =
     [''a1\<newline>a2'', ''b1\<newline>b2'']"
    by code_simp
  from aggregated_message_single_run [OF h, of taking_turns]
  have "map (\<lambda>t. (w_session t, w_message t)) (threads (run_web demo_world taking_turns fresh_web)) =
     [(''demo'', ''one''), (''demo'', ''two'')]"
    and "mset (assistant_contents (emitted (run_web demo_world taking_turns fresh_web))) =
     {#''a1\<newline>a2'', ''b1\<newline>b2''#}"
    by (simp_all add: a e)
  then show ?thesis
    using h p r by simp
qed

theorem concurrent_invocations_counterexample:
  "accepted_requests two_requests = [(''demo'', ''one''), (''demo'', ''two'')] \<and>
   active_sessions (run_web demo_world two_requests fresh_web) = [''demo'', ''demo''] \<and>
   \<not> distinct (active_sessions (run_web demo_world two_requests fresh_web)) \<and>
   web_spawned (run_web demo_world two_requests fresh_web) =
     [resume_cmd ''demo'' ''one'', resume_cmd ''demo'' ''two''] \<and>
   partial_responses (emitted (run_web demo_world taking_turns fresh_web)) =
     [''a1'', ''b1'', ''a2'', ''b2'']"
proof -
  have "accepted_requests two_requests = [(''demo'', ''one''), (''demo'', ''two'')]"
    by code_simp
  moreover have a: "active_sessions (run_web demo_world two_requests fresh_web) = [''demo'', ''demo'']"
    by code_simp
  moreover have "web_spawned (run_web demo_world two_requests fresh_web) =
     [resume_cmd ''demo'' ''one'', resume_cmd ''demo'' ''two'']"
    by code_simp
  moreover have "partial_responses (emitted (run_web demo_world taking_turns fresh_web)) =
     [''a1'', ''b1'', ''a2'', ''b2'']"
    by code_simp
  ultimately show ?thesis
    by (simp add: a)
qed

section \<open>A worker that runs alone\<close>

text \<open>
  Stepped from its creation to its end with no other thread in between, a worker emits
  exactly what the body of \<open>run_goose\<close> emits.
\<close>

lemma funpow_Suc_apply: "(f ^^ Suc n) x = (f ^^ n) (f x)"
  by (simp add: funpow_swap1)

lemma step_line:
  assumes "i < length (threads st)" and "phase (threads st ! i) = Streaming p (line # rest) rl"
  shows "i < length (threads (worker_step w i st))"
   "phase (threads (worker_step w i st) ! i) =
      Streaming p rest (if strip line \<noteq> [] then rl @ [strip line] else rl)"
   "emitted (worker_step w i st) = emitted st @
        (if strip line \<noteq> [] then [(Everyone, EvPartialResponse (strip line))] else [])"
   "web_ticks (worker_step w i st) = web_ticks st"
  using assms
  by (simp_all add: worker_step_def Let_def set_phase_def emit_def)

lemma step_end:
  assumes "i < length (threads st)" and "phase (threads st ! i) = Streaming p [] rl"
  shows "emitted (worker_step w i st) = emitted st @
     [(Everyone, EvMessage ''assistant'' (join newline rl) (clock_iso w (web_ticks st)))]"
  using assms
  by (simp add: worker_step_def Let_def set_phase_def emit_def)

lemma captured_lines_Cons:
  "captured_lines (line # rest) =
     (if strip line \<noteq> [] then [strip line] else []) @ captured_lines rest"
  by (simp add: captured_lines_def)

lemma worker_alone_streaming:
  assumes "i < length (threads st)" and "phase (threads st ! i) = Streaming p pending rl"
  shows "emitted ((worker_step w i ^^ Suc (length pending)) st) =
     emitted st @ map (\<lambda>l. (Everyone, EvPartialResponse l)) (captured_lines pending) @
     [(Everyone, EvMessage ''assistant'' (join newline (rl @ captured_lines pending))
         (clock_iso w (web_ticks st)))]"
  using assms
proof (induction pending arbitrary: st rl)
  case Nil
  have "captured_lines [] = []"
    by (simp add: captured_lines_def)
  then show ?case
    using step_end [OF Nil.prems, of w] by simp
next
  case (Cons line rest)
  note s = step_line [OF Cons.prems, of w]
  have "emitted ((worker_step w i ^^ Suc (length rest)) (worker_step w i st)) =
     emitted (worker_step w i st) @
     map (\<lambda>l. (Everyone, EvPartialResponse l)) (captured_lines rest) @
     [(Everyone, EvMessage ''assistant''
         (join newline ((if strip line \<noteq> [] then rl @ [strip line] else rl) @ captured_lines rest))
         (clock_iso w (web_ticks (worker_step w i st))))]"
    by (rule Cons.IH [OF s(1) s(2)])
  moreover have "(worker_step w i ^^ Suc (length (line # rest))) st =
     (worker_step w i ^^ Suc (length rest)) (worker_step w i st)"
    using funpow_Suc_apply [of "Suc (length rest)" "worker_step w i" st] by simp
  ultimately show ?case
    by (simp only: s(3) s(4) captured_lines_Cons) simp
qed

lemma worker_alone_run_goose:
  assumes "i < length (threads st)" and "phase (threads st ! i) = Created"
    and "goose w = Some g"
    and "cmd = resume_cmd (w_session (threads st ! i)) (w_message (threads st ! i))"
  shows "emitted ((worker_step w i ^^ Suc (Suc (length (stdout_lines (g cmd))))) st) =
     emitted (run_goose w (w_session (threads st ! i)) (w_message (threads st ! i)) st)"
proof -
  have len: "i < length (threads (worker_step w i st))"
    and ph: "phase (threads (worker_step w i st) ! i) =
       Streaming (g cmd) (stdout_lines (g cmd)) []"
    and em: "emitted (worker_step w i st) = emitted st"
    and tk: "web_ticks (worker_step w i st) = web_ticks st"
    using assms
    by (simp_all add: worker_step_def Let_def set_phase_def Popen_def)
  have "(worker_step w i ^^ Suc (Suc (length (stdout_lines (g cmd))))) st =
        (worker_step w i ^^ Suc (length (stdout_lines (g cmd)))) (worker_step w i st)"
    by (rule funpow_Suc_apply)
  then show ?thesis
    using worker_alone_streaming [OF len ph, of w] assms(3,4)
    by (simp only: em tk run_goose_emitted [OF assms(3)]) simp
qed

end
